theory Spec2Isabelle
  imports Complex_Main
begin

section \<open>Python values, dictionaries and exceptions\<close>

text \<open>
  The values a caller can put into a parameter dictionary.  A Python \<open>float\<close> is
  idealised as a real number; the non-finite floats (nan, inf) are not values of the
  model.  \<open>bool\<close> is a subclass of \<open>int\<close> in Python, not of \<open>float\<close>.
\<close>

datatype pyval = PyFloat real | PyInt int | PyBool bool | PyStr string | PyNone

type_synonym pydict = "string \<rightharpoonup> pyval"

text \<open>The two messages of \<open>_check_parameters\<close>, with the values formatted into them.\<close>

datatype message =
    Missing string
  | NotValid pyval string

datatype error =
    ValueError message
  | KeyError string
  | TypeError
  | ZeroDivisionError
  | FloatingPointError
  | LinAlgError
  | EmptyBodiesError

text \<open>\<open>isinstance(v, float)\<close>\<close>

fun isinstance_float :: "pyval \<Rightarrow> bool" where
  "isinstance_float (PyFloat r) = True"
| "isinstance_float v = False"

section \<open>The schema tables\<close>

text \<open>
  \<open>par_strings\<close> of each class maps a parameter name to its LaTeX label; only the
  names are read by the code modelled here (\<open>for k, _ in self.par_strings.items()\<close>), so
  the tables are the lists of their keys, in the order of the source (a Python dict
  iterates in insertion order).
\<close>

definition Meijaard2007_par_strings :: "string list" where
  "Meijaard2007_par_strings =
    [''IBxx'', ''IBxz'', ''IByy'', ''IBzz'', ''IFxx'', ''IFyy'',
     ''IHxx'', ''IHxz'', ''IHyy'', ''IHzz'', ''IRxx'', ''IRyy'',
     ''c'', ''g'', ''lam'', ''mB'', ''mF'', ''mH'', ''mR'', ''rF'', ''rR'',
     ''v'', ''w'', ''xB'', ''xH'', ''zB'', ''zH'']"

definition Meijaard2007_body_labels :: "string list" where
  "Meijaard2007_body_labels = [''B'', ''F'', ''H'', ''R'']"

definition Moore2019_par_strings :: "string list" where
  "Moore2019_par_strings =
    [''alphaD'', ''alphaH'', ''alphaP'', ''c'', ''g'',
     ''kDaa'', ''kDbb'', ''kDyy'', ''kFaa'', ''kFyy'',
     ''kHaa'', ''kHbb'', ''kHyy'', ''kPaa'', ''kPbb'', ''kPyy'',
     ''kRaa'', ''kRyy'', ''lP'', ''lam'',
     ''mD'', ''mF'', ''mH'', ''mP'', ''mR'', ''rF'', ''rR'',
     ''v'', ''w'', ''wP'', ''xD'', ''xH'', ''xP'', ''zD'', ''zH'', ''zP'']"

section \<open>Validation: \<open>ParameterSet._check_parameters\<close>\<close>

text \<open>
  The loop over the schema table: the first key that is absent raises, and so does the
  first key whose value is not a float; the keys are visited in table order and the
  loop stops at the first raise.
\<close>

fun check_parameters :: "string list \<Rightarrow> pydict \<Rightarrow> error + unit" where
  "check_parameters [] parameters = Inr ()"
| "check_parameters (k # ks) parameters =
     (case parameters k of
        None \<Rightarrow> Inl (ValueError (Missing k))
      | Some v \<Rightarrow>
          if \<not> isinstance_float v then Inl (ValueError (NotValid v k))
          else check_parameters ks parameters)"

text \<open>The key a validation error names.\<close>

fun offending_key :: "error \<Rightarrow> string option" where
  "offending_key (ValueError (Missing k)) = Some k"
| "offending_key (ValueError (NotValid v k)) = Some k"
| "offending_key e = None"

text \<open>A key is fine when it is present with a float value.\<close>

definition key_ok :: "pydict \<Rightarrow> string \<Rightarrow> bool" where
  "key_ok parameters k = (case parameters k of None \<Rightarrow> False | Some v \<Rightarrow> isinstance_float v)"

text \<open>The first key of the table that is not fine, if any.\<close>

definition first_offending :: "string list \<Rightarrow> pydict \<Rightarrow> string option" where
  "first_offending ks parameters = find (\<lambda>k. \<not> key_ok parameters k) ks"

section \<open>The store and the instance\<close>

text \<open>
  Dictionaries are mutable objects that the code copies, updates and shares, so they live
  in a store: an address is a natural number, \<open>fresh\<close> is the next unused one.  The
  instance attributes read by the modelled methods are \<open>self.parameters\<close> (a reference
  to the caller's dictionary, not a copy) and \<open>self.includes_rider\<close> (absent on a
  Moore2019 instance).
\<close>

record pystate =
  heap :: "nat \<Rightarrow> pydict"
  fresh :: nat
  self_parameters :: nat
  self_includes_rider :: "bool option"

text \<open>A computation runs on a state and ends in a value or in a raised exception.\<close>

type_synonym 'a py = "pystate \<Rightarrow> (error + 'a) \<times> pystate"

definition ret :: "'a \<Rightarrow> 'a py" where
  "ret a s = (Inr a, s)"

definition raise :: "error \<Rightarrow> 'a py" where
  "raise e s = (Inl e, s)"

definition py_bind :: "'a py \<Rightarrow> ('a \<Rightarrow> 'b py) \<Rightarrow> 'b py" where
  "py_bind m f s = (case m s of (Inl e, s') \<Rightarrow> (Inl e, s') | (Inr a, s') \<Rightarrow> f a s')"

definition py_then :: "unit py \<Rightarrow> 'b py \<Rightarrow> 'b py" where
  "py_then m n = py_bind m (\<lambda>_. n)"

text \<open>\<open>self.parameters\<close>\<close>

definition get_self_parameters :: "nat py" where
  "get_self_parameters s = (Inr (self_parameters s), s)"

text \<open>\<open>{}\<close>\<close>

definition dict_new :: "nat py" where
  "dict_new s = (Inr (fresh s), s\<lparr>heap := (heap s)(fresh s := Map.empty), fresh := Suc (fresh s)\<rparr>)"

text \<open>\<open>d.copy()\<close>\<close>

definition dict_copy :: "nat \<Rightarrow> nat py" where
  "dict_copy d s = (Inr (fresh s), s\<lparr>heap := (heap s)(fresh s := heap s d), fresh := Suc (fresh s)\<rparr>)"

text \<open>\<open>d.update(e)\<close>\<close>

definition dict_update :: "nat \<Rightarrow> nat \<Rightarrow> unit py" where
  "dict_update d e s = (Inr (), s\<lparr>heap := (heap s)(d := heap s d ++ heap s e)\<rparr>)"

text \<open>\<open>d[k] = v\<close>\<close>

definition dict_setitem :: "nat \<Rightarrow> string \<Rightarrow> pyval \<Rightarrow> unit py" where
  "dict_setitem d k v s = (Inr (), s\<lparr>heap := (heap s)(d := (heap s d)(k \<mapsto> v))\<rparr>)"

text \<open>\<open>d[k]\<close>\<close>

definition dict_getitem :: "nat \<Rightarrow> string \<Rightarrow> pyval py" where
  "dict_getitem d k s = (case heap s d k of None \<Rightarrow> (Inl (KeyError k), s) | Some v \<Rightarrow> (Inr v, s))"

section \<open>Arithmetic on Python values\<close>

text \<open>The number a numeric value stands for; strings and \<open>None\<close> are not numbers.\<close>

fun py_num :: "pyval \<Rightarrow> real option" where
  "py_num (PyFloat r) = Some r"
| "py_num (PyInt i) = Some (of_int i)"
| "py_num (PyBool b) = Some (if b then 1 else 0)"
| "py_num v = None"

text \<open>Unary minus: \<open>-v\<close>.\<close>

fun py_neg :: "pyval \<Rightarrow> error + pyval" where
  "py_neg (PyFloat r) = Inr (PyFloat (- r))"
| "py_neg (PyInt i) = Inr (PyInt (- i))"
| "py_neg (PyBool b) = Inr (PyInt (- (if b then 1 else 0)))"
| "py_neg v = Inl TypeError"

definition lift :: "error + 'a \<Rightarrow> 'a py" where
  "lift r s = (r, s)"

text \<open>
  Division and square root on NumPy floats.  NumPy raises nothing here: a zero divisor
  gives inf or nan and the root of a negative number gives nan, each with a warning only,
  and the computation goes on with that value.  A float inside a computation is
  therefore a real number or \<open>None\<close>, which stands for inf and nan.  A finite result is
  the exact real quotient or root: the rounding of float64 arithmetic is not modelled,
  and neither is overflow.
\<close>

definition np_div :: "real \<Rightarrow> real \<Rightarrow> real option" where
  "np_div a b = (if b = 0 then None else Some (a / b))"

definition np_sqrt :: "real option \<Rightarrow> real option" where
  "np_sqrt q = (case q of None \<Rightarrow> None | Some a \<Rightarrow> if a < 0 then None else Some (sqrt a))"

text \<open>\<open>np.arctan2(y, x)\<close>: the angle of the point \<open>(x, y)\<close>, in \<open>(-pi, pi]\<close>.\<close>

definition arctan2 :: "real \<Rightarrow> real \<Rightarrow> real" where
  "arctan2 y x =
     (if 0 < x then arctan (y / x)
      else if x < 0 then (if 0 \<le> y then arctan (y / x) + pi else arctan (y / x) - pi)
      else if 0 < y then pi / 2
      else if y < 0 then - (pi / 2)
      else 0)"

section \<open>Arrays\<close>

text \<open>
  A NumPy array of one or of two dimensions, holding the values it was built from (the
  conversion to a common dtype is not modelled).
\<close>

datatype ndarray = Arr1 "pyval list" | Arr2 "pyval list list"

fun shape :: "ndarray \<Rightarrow> nat list" where
  "shape (Arr1 xs) = [length xs]"
| "shape (Arr2 rows) = [length rows, (case rows of [] \<Rightarrow> 0 | r # _ \<Rightarrow> length r)]"

text \<open>\<open>a.squeeze()\<close> drops the axes of length one (a result of no axis is not modelled).\<close>

fun squeeze :: "ndarray \<Rightarrow> ndarray" where
  "squeeze (Arr1 xs) = Arr1 xs"
| "squeeze (Arr2 rows) =
     (if (\<forall>r \<in> set rows. length r = 1) \<or> length rows = 1 then Arr1 (concat rows)
      else Arr2 rows)"

text \<open>
  \<open>np.array(coordinates).T\<close> for a list of one-dimensional arrays of one length: the
  empty list gives the empty one-dimensional array, which is its own transpose.
\<close>

fun items :: "ndarray \<Rightarrow> pyval list" where
  "items (Arr1 xs) = xs"
| "items (Arr2 rows) = concat rows"

definition np_array_T :: "ndarray list \<Rightarrow> ndarray" where
  "np_array_T cs = (if cs = [] then Arr1 [] else Arr2 (transpose (map items cs)))"

text \<open>\<open>np.delete(a, i, axis=1)\<close> and \<open>np.delete(a, i, axis=0)\<close> on a two-dimensional array.\<close>

definition delete_nth :: "nat \<Rightarrow> 'a list \<Rightarrow> 'a list" where
  "delete_nth i xs = take i xs @ drop (Suc i) xs"

fun np_delete :: "ndarray \<Rightarrow> nat \<Rightarrow> nat \<Rightarrow> ndarray" where
  "np_delete (Arr2 rows) i axis =
     (if axis = 0 then Arr2 (delete_nth i rows) else Arr2 (map (delete_nth i) rows))"
| "np_delete (Arr1 xs) i axis = Arr1 (delete_nth i xs)"

section \<open>Construction\<close>

text \<open>
  \<open>ParameterSet.__init__\<close> runs \<open>_check_parameters\<close> on the caller's dictionary; the
  subclass then stores the reference (and the flag).  The colour bookkeeping of
  \<open>_generate_body_colors\<close> is drawing support and is left out.
\<close>

definition ParameterSet_init :: "string list \<Rightarrow> nat \<Rightarrow> unit py" where
  "ParameterSet_init par_strings par_dict s = (check_parameters par_strings (heap s par_dict), s)"

definition Meijaard2007ParameterSet_init :: "nat \<Rightarrow> bool \<Rightarrow> unit py" where
  "Meijaard2007ParameterSet_init parameters includes_rider =
     py_then (ParameterSet_init Meijaard2007_par_strings parameters)
       (\<lambda>s. (Inr (), s\<lparr>self_parameters := parameters,
                         self_includes_rider := Some includes_rider\<rparr>))"

definition Moore2019ParameterSet_init :: "nat \<Rightarrow> unit py" where
  "Moore2019ParameterSet_init parameters =
     py_then (ParameterSet_init Moore2019_par_strings parameters)
       (\<lambda>s. (Inr (), s\<lparr>self_parameters := parameters\<rparr>))"

section \<open>\<open>Meijaard2007ParameterSet\<close>: the queries\<close>

text \<open>\<open>pext[k] = p[j]\<close> and \<open>pext[k] = -p[j]\<close>\<close>

definition copy_item :: "nat \<Rightarrow> string \<Rightarrow> nat \<Rightarrow> string \<Rightarrow> unit py" where
  "copy_item pext k p j = py_bind (dict_getitem p j) (\<lambda>v. dict_setitem pext k v)"

definition copy_item_neg :: "nat \<Rightarrow> string \<Rightarrow> nat \<Rightarrow> string \<Rightarrow> unit py" where
  "copy_item_neg pext k p j =
     py_bind (dict_getitem p j) (\<lambda>v. py_bind (lift (py_neg v)) (\<lambda>n. dict_setitem pext k n))"

text \<open>\<open>_calc_derived_params\<close>: a fresh dictionary of the twelve derived entries.\<close>

definition Meijaard2007_calc_derived_params :: "nat py" where
  "Meijaard2007_calc_derived_params =
     py_bind get_self_parameters (\<lambda>p.
     py_bind dict_new (\<lambda>pext.
     py_then (dict_setitem pext ''IFxz'' (PyFloat 0.0))
    (py_then (copy_item pext ''IFzz'' p ''IFxx'')
    (py_then (dict_setitem pext ''IRxz'' (PyFloat 0.0))
    (py_then (copy_item pext ''IRzz'' p ''IRxx'')
    (py_then (copy_item pext ''xF'' p ''w'')
    (py_then (dict_setitem pext ''xR'' (PyFloat 0.0))
    (py_then (dict_setitem pext ''yB'' (PyFloat 0.0))
    (py_then (dict_setitem pext ''yF'' (PyFloat 0.0))
    (py_then (dict_setitem pext ''yH'' (PyFloat 0.0))
    (py_then (dict_setitem pext ''yR'' (PyFloat 0.0))
    (py_then (copy_item_neg pext ''zF'' p ''rF'')
    (py_then (copy_item_neg pext ''zR'' p ''rR'')
    (ret pext))))))))))))))"

text \<open>
  The common prologue \<open>p = self.parameters.copy(); p.update(self._calc_derived_params())\<close>.
\<close>

definition Meijaard2007_parameters_with_derived :: "nat py" where
  "Meijaard2007_parameters_with_derived =
     py_bind get_self_parameters (\<lambda>sp.
     py_bind (dict_copy sp) (\<lambda>p.
     py_bind Meijaard2007_calc_derived_params (\<lambda>pext.
     py_then (dict_update p pext)
     (ret p))))"

text \<open>\<open>form_mass_center_vector\<close>: the \<open>(3, 1)\<close> array \<open>[[x], [y], [z]]\<close>.\<close>

definition form_mass_center_vector :: "string \<Rightarrow> ndarray py" where
  "form_mass_center_vector body =
     py_bind Meijaard2007_parameters_with_derived (\<lambda>p.
     py_bind (dict_getitem p (''x'' @ body)) (\<lambda>x.
     py_bind (dict_getitem p (''y'' @ body)) (\<lambda>y.
     py_bind (dict_getitem p (''z'' @ body)) (\<lambda>z.
     ret (Arr2 [[x], [y], [z]])))))"

text \<open>
  Modelled from the spec: \<open>total_com\<close> of the module \<open>com\<close>, which is not among the
  sources.  The centre of mass of several bodies is the mass-weighted average
  \<open>sum (m_i * p_i) / sum m_i\<close> of their positions, a flat array of the three coordinates
  (the rows of \<open>coordinates\<close> are x, y and z, its columns the bodies); an empty set of
  bodies fails.  Values that are not numbers cannot be multiplied.  With a total mass
  of zero the quotient is inf or nan in NumPy; the array of the model holds real numbers,
  so this outcome is reported as \<open>FloatingPointError\<close>.
\<close>

definition total_com :: "ndarray \<Rightarrow> pyval list \<Rightarrow> error + real \<times> ndarray" where
  "total_com coordinates masses =
     (case coordinates of
        Arr1 xs \<Rightarrow> Inl EmptyBodiesError
      | Arr2 rows \<Rightarrow>
          (case (those (map py_num masses), those (map (\<lambda>r. those (map py_num r)) rows)) of
             (Some ms, Some rs) \<Rightarrow>
               (if sum_list ms = 0 then Inl FloatingPointError
                else Inr (sum_list ms,
                          Arr1 (map (\<lambda>r. PyFloat (sum_list (map2 (*) ms r) / sum_list ms)) rs)))
           | _ \<Rightarrow> Inl TypeError))"

text \<open>The loop of \<open>mass_center_of\<close>, appending to \<open>masses\<close> and \<open>coordinates\<close>.\<close>

fun mass_center_loop ::
  "string list \<Rightarrow> ndarray list \<Rightarrow> pyval list \<Rightarrow> (ndarray list \<times> pyval list) py" where
  "mass_center_loop [] coordinates masses = ret (coordinates, masses)"
| "mass_center_loop (body # bodies) coordinates masses =
     py_bind get_self_parameters (\<lambda>sp.
     py_bind (dict_getitem sp (''m'' @ body)) (\<lambda>m.
     py_bind (form_mass_center_vector body) (\<lambda>v.
     mass_center_loop bodies (coordinates @ [squeeze v]) (masses @ [m]))))"

definition mass_center_of :: "string list \<Rightarrow> ndarray py" where
  "mass_center_of bodies =
     (if length bodies = 1 then form_mass_center_vector (hd bodies)
      else
        py_bind (mass_center_loop bodies [] []) (\<lambda>(coordinates, masses).
        py_bind (lift (total_com (np_array_T coordinates) masses)) (\<lambda>(mass, com).
        ret com)))"

text \<open>\<open>form_inertia_tensor\<close>\<close>

definition form_inertia_tensor :: "string \<Rightarrow> ndarray py" where
  "form_inertia_tensor body =
     py_bind Meijaard2007_parameters_with_derived (\<lambda>p.
     py_bind (dict_getitem p (''I'' @ body @ ''xx'')) (\<lambda>Ixx.
     py_bind (dict_getitem p (''I'' @ body @ ''xz'')) (\<lambda>Ixz.
     py_bind (dict_getitem p (''I'' @ body @ ''yy'')) (\<lambda>Iyy.
     py_bind (dict_getitem p (''I'' @ body @ ''zz'')) (\<lambda>Izz.
     ret (Arr2 [[Ixx, PyFloat 0.0, Ixz],
                [PyFloat 0.0, Iyy, PyFloat 0.0],
                [Ixz, PyFloat 0.0, Izz]]))))))"

section \<open>Principal radii of gyration\<close>

text \<open>
  \<open>np.linalg.eig\<close> is a library routine, so it is a parameter of the model: a function
  from the matrix \<open>[[a, b], [c, d]]\<close>, given as \<open>(a, b, c, d)\<close>, to the pair of the
  eigenvalues \<open>(l0, l1)\<close> and the matrix \<open>((v00, v01), (v10, v11))\<close> whose columns are the
  eigenvectors.
\<close>

type_synonym eig_solver =
  "real \<times> real \<times> real \<times> real \<Rightarrow> (real \<times> real) \<times> ((real \<times> real) \<times> (real \<times> real))"

definition np_linalg_eig ::
  "eig_solver \<Rightarrow> ndarray \<Rightarrow> error + (real \<times> real) \<times> ((real \<times> real) \<times> (real \<times> real))" where
  "np_linalg_eig eig a =
     (case a of
        Arr2 [[a00, a01], [a10, a11]] \<Rightarrow>
          (case (py_num a00, py_num a01, py_num a10, py_num a11) of
             (Some x00, Some x01, Some x10, Some x11) \<Rightarrow> Inr (eig (x00, x01, x10, x11))
           | _ \<Rightarrow> Inl TypeError)
      | _ \<Rightarrow> Inl LinAlgError)"

text \<open>\<open>np.argsort\<close> of two values, and indexing a pair by a pair of indices.\<close>

definition argsort2 :: "real \<times> real \<Rightarrow> nat \<times> nat" where
  "argsort2 evals = (if fst evals \<le> snd evals then (0, 1) else (1, 0))"

definition index2 :: "'a \<times> 'a \<Rightarrow> nat \<Rightarrow> 'a" where
  "index2 xs i = (if i = 0 then fst xs else snd xs)"

definition take2 :: "'a \<times> 'a \<Rightarrow> nat \<times> nat \<Rightarrow> 'a \<times> 'a" where
  "take2 xs idxs = (index2 xs (fst idxs), index2 xs (snd idxs))"

text \<open>
  A NumPy float divided by a Python value follows NumPy; two Python values divided
  follow Python, where a zero divisor raises.
\<close>

definition np_div_py :: "real \<Rightarrow> pyval \<Rightarrow> error + real option" where
  "np_div_py a m = (case py_num m of None \<Rightarrow> Inl TypeError | Some r \<Rightarrow> Inr (np_div a r))"

definition py_div :: "pyval \<Rightarrow> pyval \<Rightarrow> error + real option" where
  "py_div a b =
     (case (py_num a, py_num b) of
        (Some x, Some y) \<Rightarrow> if y = 0 then Inl ZeroDivisionError else Inr (Some (x / y))
      | _ \<Rightarrow> Inl TypeError)"

definition sqrt_of :: "error + real option \<Rightarrow> error + real option" where
  "sqrt_of q = (case q of Inl e \<Rightarrow> Inl e | Inr x \<Rightarrow> Inr (np_sqrt x))"

text \<open>
  The results are real numbers in the model, so a tuple that would hold inf or nan is
  reported as \<open>FloatingPointError\<close> at the return; an exception the code raises on the
  way comes first, as in Python.
\<close>

definition return_finite ::
  "real option \<Rightarrow> real option \<Rightarrow> real option \<Rightarrow> real \<Rightarrow> error + real \<times> real \<times> real \<times> real" where
  "return_finite kmax kmin kyy angle =
     (case (kmax, kmin, kyy) of
        (Some a, Some b, Some c) \<Rightarrow> Inr (a, b, c, angle)
      | _ \<Rightarrow> Inl FloatingPointError)"

text \<open>\<open>_planar_principal_radii_of_gyration\<close>, returning \<open>(kmax, kmin, kyy, angle_to_max)\<close>.\<close>

definition planar_principal_radii_of_gyration ::
  "eig_solver \<Rightarrow> string \<Rightarrow> (real \<times> real \<times> real \<times> real) py" where
  "planar_principal_radii_of_gyration eig body =
     py_bind Meijaard2007_parameters_with_derived (\<lambda>p.
     py_bind (form_inertia_tensor body) (\<lambda>IH.
     py_bind (lift (np_linalg_eig eig (np_delete (np_delete IH 1 1) 1 0))) (\<lambda>(evals0, evecs0).
     (let idxs = argsort2 evals0;
          evals = take2 evals0 idxs;
          evecs = (take2 (fst evecs0) idxs, take2 (snd evecs0) idxs);
          angle_to_max = arctan2 (- snd (snd evecs)) (snd (fst evecs))
      in
     py_bind (dict_getitem p (''m'' @ body)) (\<lambda>m0.
     py_bind (lift (sqrt_of (np_div_py (fst evals) m0))) (\<lambda>kmin.
     py_bind (dict_getitem p (''m'' @ body)) (\<lambda>m1.
     py_bind (lift (sqrt_of (np_div_py (snd evals) m1))) (\<lambda>kmax.
     py_bind (dict_getitem p (''I'' @ body @ ''yy'')) (\<lambda>Iyy.
     py_bind (dict_getitem p (''m'' @ body)) (\<lambda>m2.
     py_bind (lift (sqrt_of (py_div Iyy m2))) (\<lambda>kyy.
     lift (return_finite kmax kmin kyy angle_to_max))))))))))))"

section \<open>\<open>Moore2019ParameterSet\<close>\<close>

definition Moore2019_calc_derived_params :: "nat py" where
  "Moore2019_calc_derived_params =
     py_bind get_self_parameters (\<lambda>p.
     py_bind dict_new (\<lambda>pext.
     py_then (dict_setitem pext ''alphaF'' (PyFloat 0.0))
    (py_then (dict_setitem pext ''alphaR'' (PyFloat 0.0))
    (py_then (dict_setitem pext ''yD'' (PyFloat 0.0))
    (py_then (dict_setitem pext ''yP'' (PyFloat 0.0))
    (py_then (dict_setitem pext ''yH'' (PyFloat 0.0))
    (py_then (dict_setitem pext ''yR'' (PyFloat 0.0))
    (py_then (dict_setitem pext ''yF'' (PyFloat 0.0))
    (py_then (dict_setitem pext ''xR'' (PyFloat 0.0))
    (py_then (copy_item pext ''xF'' p ''w'')
    (py_then (copy_item_neg pext ''zR'' p ''rR'')
    (py_then (copy_item_neg pext ''zF'' p ''rF'')
    (py_then (copy_item pext ''kRbb'' p ''kRaa'')
    (py_then (copy_item pext ''kFbb'' p ''kFaa'')
    (ret pext)))))))))))))))"

section \<open>Valid instances\<close>

text \<open>
  An instance is valid when its dictionary exists in the store and passes the
  validation of its class, as it did when the instance was constructed.
\<close>

definition valid_Meijaard2007 :: "pystate \<Rightarrow> bool" where
  "valid_Meijaard2007 s =
     (self_parameters s < fresh s \<and>
      check_parameters Meijaard2007_par_strings (heap s (self_parameters s)) = Inr ())"

definition valid_Moore2019 :: "pystate \<Rightarrow> bool" where
  "valid_Moore2019 s =
     (self_parameters s < fresh s \<and>
      check_parameters Moore2019_par_strings (heap s (self_parameters s)) = Inr ())"

text \<open>The benchmark bicycle of the test module, as a dictionary.\<close>

definition meijaard2007_parameters :: pydict where
  "meijaard2007_parameters =
     map_of [(''IBxx'', PyFloat 9.2), (''IBxz'', PyFloat 2.4), (''IByy'', PyFloat 11.0),
       (''IBzz'', PyFloat 2.8), (''IFxx'', PyFloat 0.1405), (''IFyy'', PyFloat 0.28),
       (''IHxx'', PyFloat 0.05892), (''IHxz'', PyFloat (- 0.00756)), (''IHyy'', PyFloat 0.06),
       (''IHzz'', PyFloat 0.00708), (''IRxx'', PyFloat 0.0603), (''IRyy'', PyFloat 0.12),
       (''c'', PyFloat 0.08), (''g'', PyFloat 9.81), (''lam'', PyFloat (pi / 10.0)),
       (''mB'', PyFloat 85.0), (''mF'', PyFloat 3.0), (''mH'', PyFloat 4.0),
       (''mR'', PyFloat 2.0), (''rF'', PyFloat 0.35), (''rR'', PyFloat 0.3),
       (''v'', PyFloat 5.0), (''w'', PyFloat 1.02), (''xB'', PyFloat 0.3),
       (''xH'', PyFloat 0.9), (''zB'', PyFloat (- 0.9)), (''zH'', PyFloat (- 0.7))]"

text \<open>
  The benchmark bicycle with three further entries that describe a point \<open>Q\<close>, and the
  benchmark bicycle with wheels of unit mass and radius zero, two metres apart.
\<close>

definition parameters_with_extra_keys :: pydict where
  "parameters_with_extra_keys =
     meijaard2007_parameters(''xQ'' \<mapsto> PyFloat 1.0, ''yQ'' \<mapsto> PyFloat 0.0,
       ''zQ'' \<mapsto> PyFloat 0.0)"

definition two_unit_masses :: pydict where
  "two_unit_masses =
     meijaard2007_parameters(''mR'' \<mapsto> PyFloat 1.0, ''mF'' \<mapsto> PyFloat 1.0,
       ''w'' \<mapsto> PyFloat 2.0, ''rR'' \<mapsto> PyFloat 0.0, ''rF'' \<mapsto> PyFloat 0.0)"

text \<open>
  The benchmark bicycle with a frame of mass 1 whose planar inertia has the principal
  moments 50 and 25 along the directions \<open>(3/5, 4/5)\<close> and \<open>(-4/5, 3/5)\<close>, and an
  eigen-solver that answers with this decomposition.
\<close>

definition tilted_frame_parameters :: pydict where
  "tilted_frame_parameters =
     meijaard2007_parameters(''IBxx'' \<mapsto> PyFloat 34.0, ''IBxz'' \<mapsto> PyFloat 12.0,
       ''IByy'' \<mapsto> PyFloat 64.0, ''IBzz'' \<mapsto> PyFloat 41.0, ''mB'' \<mapsto> PyFloat 1.0)"

definition tilted_frame_eig :: eig_solver where
  "tilted_frame_eig A = ((25, 50), ((- (4 / 5), 3 / 5), (3 / 5, 4 / 5)))"

text \<open>A store holding one dictionary at address 0, with an instance referring to it.\<close>

definition state_of :: "pydict \<Rightarrow> pystate" where
  "state_of d =
     \<lparr>heap = (\<lambda>a. if a = 0 then d else Map.empty), fresh = 1,
      self_parameters = 0, self_includes_rider = Some True\<rparr>"

section \<open>The values the queries return\<close>

text \<open>
  The queries change nothing that existed before the call, and what they return is a
  function of the stored dictionary alone.  To state this, the value of each query is
  written as a function of that dictionary; the properties below prove that the query,
  run on any store, returns this value and leaves every existing object as it was.
\<close>

definition frame_rel :: "pystate \<Rightarrow> pystate \<Rightarrow> bool" where
  "frame_rel s s' =
     (fresh s \<le> fresh s' \<and> self_parameters s' = self_parameters s \<and>
      self_includes_rider s' = self_includes_rider s \<and>
      list_all (\<lambda>a. heap s' a = heap s a) [0..<fresh s])"

definition sum_bind :: "error + 'a \<Rightarrow> ('a \<Rightarrow> error + 'b) \<Rightarrow> error + 'b" where
  "sum_bind r f = (case r of Inl e \<Rightarrow> Inl e | Inr a \<Rightarrow> f a)"

definition lookup :: "pydict \<Rightarrow> string \<Rightarrow> error + pyval" where
  "lookup d k = (case d k of None \<Rightarrow> Inl (KeyError k) | Some v \<Rightarrow> Inr v)"

definition Meijaard2007_derived_value :: "pydict \<Rightarrow> error + pydict" where
  "Meijaard2007_derived_value P =
     sum_bind (lookup P ''IFxx'') (\<lambda>ifxx.
     sum_bind (lookup P ''IRxx'') (\<lambda>irxx.
     sum_bind (lookup P ''w'') (\<lambda>w.
     sum_bind (lookup P ''rF'') (\<lambda>rf.
     sum_bind (py_neg rf) (\<lambda>zf.
     sum_bind (lookup P ''rR'') (\<lambda>rr.
     sum_bind (py_neg rr) (\<lambda>zr.
       Inr (Map.empty(''IFxz'' \<mapsto> PyFloat 0.0, ''IFzz'' \<mapsto> ifxx,
              ''IRxz'' \<mapsto> PyFloat 0.0, ''IRzz'' \<mapsto> irxx,
              ''xF'' \<mapsto> w, ''xR'' \<mapsto> PyFloat 0.0,
              ''yB'' \<mapsto> PyFloat 0.0, ''yF'' \<mapsto> PyFloat 0.0,
              ''yH'' \<mapsto> PyFloat 0.0, ''yR'' \<mapsto> PyFloat 0.0,
              ''zF'' \<mapsto> zf, ''zR'' \<mapsto> zr)))))))))"

definition Moore2019_derived_value :: "pydict \<Rightarrow> error + pydict" where
  "Moore2019_derived_value P =
     sum_bind (lookup P ''w'') (\<lambda>w.
     sum_bind (lookup P ''rR'') (\<lambda>rr.
     sum_bind (py_neg rr) (\<lambda>zr.
     sum_bind (lookup P ''rF'') (\<lambda>rf.
     sum_bind (py_neg rf) (\<lambda>zf.
     sum_bind (lookup P ''kRaa'') (\<lambda>kraa.
     sum_bind (lookup P ''kFaa'') (\<lambda>kfaa.
       Inr (Map.empty(''alphaF'' \<mapsto> PyFloat 0.0, ''alphaR'' \<mapsto> PyFloat 0.0,
              ''yD'' \<mapsto> PyFloat 0.0, ''yP'' \<mapsto> PyFloat 0.0,
              ''yH'' \<mapsto> PyFloat 0.0, ''yR'' \<mapsto> PyFloat 0.0,
              ''yF'' \<mapsto> PyFloat 0.0, ''xR'' \<mapsto> PyFloat 0.0,
              ''xF'' \<mapsto> w, ''zR'' \<mapsto> zr, ''zF'' \<mapsto> zf,
              ''kRbb'' \<mapsto> kraa, ''kFbb'' \<mapsto> kfaa)))))))))"

text \<open>The stored dictionary overlaid with the derived entries.\<close>

definition merged_value :: "pydict \<Rightarrow> error + pydict" where
  "merged_value P = sum_bind (Meijaard2007_derived_value P) (\<lambda>D. Inr (P ++ D))"

definition mass_center_vector_value :: "pydict \<Rightarrow> string \<Rightarrow> error + ndarray" where
  "mass_center_vector_value P body =
     sum_bind (merged_value P) (\<lambda>p.
     sum_bind (lookup p (''x'' @ body)) (\<lambda>x.
     sum_bind (lookup p (''y'' @ body)) (\<lambda>y.
     sum_bind (lookup p (''z'' @ body)) (\<lambda>z.
       Inr (Arr2 [[x], [y], [z]])))))"

fun mass_center_loop_value ::
  "pydict \<Rightarrow> string list \<Rightarrow> ndarray list \<Rightarrow> pyval list \<Rightarrow> error + ndarray list \<times> pyval list" where
  "mass_center_loop_value P [] coordinates masses = Inr (coordinates, masses)"
| "mass_center_loop_value P (body # bodies) coordinates masses =
     sum_bind (lookup P (''m'' @ body)) (\<lambda>m.
     sum_bind (mass_center_vector_value P body) (\<lambda>v.
       mass_center_loop_value P bodies (coordinates @ [squeeze v]) (masses @ [m])))"

definition mass_center_of_value :: "pydict \<Rightarrow> string list \<Rightarrow> error + ndarray" where
  "mass_center_of_value P bodies =
     (if length bodies = 1 then mass_center_vector_value P (hd bodies)
      else
        sum_bind (mass_center_loop_value P bodies [] []) (\<lambda>(coordinates, masses).
        sum_bind (total_com (np_array_T coordinates) masses) (\<lambda>(mass, com).
          Inr com)))"

definition inertia_tensor_value :: "pydict \<Rightarrow> string \<Rightarrow> error + ndarray" where
  "inertia_tensor_value P body =
     sum_bind (merged_value P) (\<lambda>p.
     sum_bind (lookup p (''I'' @ body @ ''xx'')) (\<lambda>Ixx.
     sum_bind (lookup p (''I'' @ body @ ''xz'')) (\<lambda>Ixz.
     sum_bind (lookup p (''I'' @ body @ ''yy'')) (\<lambda>Iyy.
     sum_bind (lookup p (''I'' @ body @ ''zz'')) (\<lambda>Izz.
       Inr (Arr2 [[Ixx, PyFloat 0.0, Ixz],
                  [PyFloat 0.0, Iyy, PyFloat 0.0],
                  [Ixz, PyFloat 0.0, Izz]]))))))"

definition principal_radii_value ::
  "eig_solver \<Rightarrow> pydict \<Rightarrow> string \<Rightarrow> error + real \<times> real \<times> real \<times> real" where
  "principal_radii_value eig P body =
     sum_bind (merged_value P) (\<lambda>p.
     sum_bind (inertia_tensor_value P body) (\<lambda>IH.
     sum_bind (np_linalg_eig eig (np_delete (np_delete IH 1 1) 1 0)) (\<lambda>(evals0, evecs0).
     (let idxs = argsort2 evals0;
          evals = take2 evals0 idxs;
          evecs = (take2 (fst evecs0) idxs, take2 (snd evecs0) idxs);
          angle_to_max = arctan2 (- snd (snd evecs)) (snd (fst evecs))
      in
     sum_bind (lookup p (''m'' @ body)) (\<lambda>m0.
     sum_bind (sqrt_of (np_div_py (fst evals) m0)) (\<lambda>kmin.
     sum_bind (lookup p (''m'' @ body)) (\<lambda>m1.
     sum_bind (sqrt_of (np_div_py (snd evals) m1)) (\<lambda>kmax.
     sum_bind (lookup p (''I'' @ body @ ''yy'')) (\<lambda>Iyy.
     sum_bind (lookup p (''m'' @ body)) (\<lambda>m2.
     sum_bind (sqrt_of (py_div Iyy m2)) (\<lambda>kyy.
       return_finite kmax kmin kyy angle_to_max)))))))))))"

section \<open>The contract of the eigen-solver\<close>

text \<open>
  What \<open>np.linalg.eig\<close> promises for the matrix \<open>[[a, b], [c, d]]\<close>: each column of the
  second result is an eigenvector of unit length for the eigenvalue of the same
  position, and the two columns are linearly independent.
\<close>

definition eig_contract :: "eig_solver \<Rightarrow> real \<times> real \<times> real \<times> real \<Rightarrow> bool" where
  "eig_contract eig A =
     (case A of (a, b, c, d) \<Rightarrow>
      case eig A of ((l0, l1), ((v00, v01), (v10, v11))) \<Rightarrow>
        a * v00 + b * v10 = l0 * v00 \<and> c * v00 + d * v10 = l0 * v10 \<and>
        a * v01 + b * v11 = l1 * v01 \<and> c * v01 + d * v11 = l1 * v11 \<and>
        v00 * v00 + v10 * v10 = 1 \<and> v01 * v01 + v11 * v11 = 1 \<and>
        v00 * v11 - v01 * v10 \<noteq> 0)"

section \<open>The converter and the dynamics model\<close>

text \<open>
  Modelled from the spec: the reconstruction formulas of \<open>convert_principal_to_benchmark\<close>
  (module \<open>conversions\<close>, not among the sources).  From the mass, the principal radii of
  gyration \<open>kaa\<close>, \<open>kbb\<close>, \<open>kyy\<close> and the principal-axis angle of a body it gives
  \<open>(Ixx, Ixz, Iyy, Izz)\<close>.
\<close>

definition principal_to_benchmark_inertia ::
  "real \<Rightarrow> real \<Rightarrow> real \<Rightarrow> real \<Rightarrow> real \<Rightarrow> real \<times> real \<times> real \<times> real" where
  "principal_to_benchmark_inertia m kaa kbb kyy \<theta> =
     (m * (kaa\<^sup>2 * (cos \<theta>)\<^sup>2 + kbb\<^sup>2 * (sin \<theta>)\<^sup>2),
      m * (kbb\<^sup>2 - kaa\<^sup>2) * sin \<theta> * cos \<theta>,
      m * kyy\<^sup>2,
      m * (kaa\<^sup>2 * (sin \<theta>)\<^sup>2 + kbb\<^sup>2 * (cos \<theta>)\<^sup>2))"

text \<open>
  Modelled from the spec: the entry points of \<open>Meijaard2007Model\<close> (module \<open>models\<close>, not
  among the sources).  An override maps a parameter name to a scalar or to a vector of
  floats; a validation pass counts the vector-valued overrides and rejects a count
  above one before any computation.  The matrix work itself (the closed-form
  canonical matrices, the state-space realisation, the eigen-solver) is a parameter of
  each entry point; a failure of the linear algebra is a numeric error.
\<close>

datatype override = Scalar real | Vector "real list"

datatype model_error = SweepConflictError | NumericError

fun is_vector :: "override \<Rightarrow> bool" where
  "is_vector (Vector xs) = True"
| "is_vector (Scalar x) = False"

text \<open>Modelled from the spec: the number of vector-valued overrides of a call.\<close>

definition vector_count :: "(string \<times> override) list \<Rightarrow> nat" where
  "vector_count overrides = length (filter (\<lambda>kv. is_vector (snd kv)) overrides)"

text \<open>
  Modelled from the spec: \<open>formReducedCanonicalMatrices\<close> rejects two or more vectors
  before it evaluates the canonical matrices.
\<close>

definition form_reduced_canonical_matrices ::
  "((string \<times> override) list \<Rightarrow> 'm) \<Rightarrow> (string \<times> override) list \<Rightarrow> model_error + 'm" where
  "form_reduced_canonical_matrices canonical overrides =
     (if 1 < vector_count overrides then Inl SweepConflictError
      else Inr (canonical overrides))"

text \<open>
  Modelled from the spec: \<open>formStateSpaceMatrices\<close> builds the realisation from the
  canonical matrices, under the same rule, and fails when the mass matrix is singular.
\<close>

definition form_state_space_matrices ::
  "((string \<times> override) list \<Rightarrow> 'm) \<Rightarrow> ('m \<Rightarrow> 'ab option) \<Rightarrow>
   (string \<times> override) list \<Rightarrow> model_error + 'ab" where
  "form_state_space_matrices canonical realise overrides =
     (case form_reduced_canonical_matrices canonical overrides of
        Inl e \<Rightarrow> Inl e
      | Inr ms \<Rightarrow> (case realise ms of None \<Rightarrow> Inl NumericError | Some ab \<Rightarrow> Inr ab))"

text \<open>
  Modelled from the spec: \<open>calcEigen\<close> solves the eigenproblem of the state matrix,
  under the same rule.
\<close>

definition calc_eigen ::
  "((string \<times> override) list \<Rightarrow> 'm) \<Rightarrow> ('m \<Rightarrow> 'ab option) \<Rightarrow> ('ab \<Rightarrow> 'ev option) \<Rightarrow>
   (string \<times> override) list \<Rightarrow> model_error + 'ev" where
  "calc_eigen canonical realise solve overrides =
     (case form_state_space_matrices canonical realise overrides of
        Inl e \<Rightarrow> Inl e
      | Inr ab \<Rightarrow> (case solve ab of None \<Rightarrow> Inl NumericError | Some ev \<Rightarrow> Inr ev))"

section \<open>Properties of validation\<close>

lemma check_parameters_ok_iff:
  "check_parameters ks p = Inr () \<longleftrightarrow> (\<forall>k\<in>set ks. key_ok p k)"
  by (induction ks) (auto simp: key_ok_def split: option.splits)

lemma check_parameters_extra:
  "k' \<notin> set ks \<Longrightarrow> check_parameters ks (p(k' \<mapsto> v)) = check_parameters ks p"
  by (induction ks) (auto split: option.splits)

lemma check_parameters_names_first:
  "check_parameters ks p = Inl e \<Longrightarrow>
     \<exists>pre k post. ks = pre @ k # post \<and> (\<forall>j\<in>set pre. key_ok p j) \<and> \<not> key_ok p k
        \<and> offending_key e = Some k \<and> first_offending ks p = Some k"
proof (induction ks)
  case Nil
  then show ?case by simp
next
  case (Cons a ks)
  show ?case
  proof (cases "key_ok p a")
    case False
    with Cons.prems have "offending_key e = Some a"
      by (auto simp: key_ok_def split: option.splits if_splits)
    with False have "a # ks = [] @ a # ks \<and> (\<forall>j\<in>set []. key_ok p j) \<and> \<not> key_ok p a
        \<and> offending_key e = Some a \<and> first_offending (a # ks) p = Some a"
      by (simp add: first_offending_def)
    then show ?thesis by blast
  next
    case True
    with Cons.prems have "check_parameters ks p = Inl e"
      by (auto simp: key_ok_def split: option.splits if_splits)
    from Cons.IH[OF this] obtain pre k post where
      h: "ks = pre @ k # post" "\<forall>j\<in>set pre. key_ok p j" "\<not> key_ok p k"
         "offending_key e = Some k" "first_offending ks p = Some k"
      by blast
    with True have "a # ks = (a # pre) @ k # post \<and> (\<forall>j\<in>set (a # pre). key_ok p j)
        \<and> \<not> key_ok p k \<and> offending_key e = Some k \<and> first_offending (a # ks) p = Some k"
      by (simp add: first_offending_def)
    then show ?thesis by blast
  qed
qed

lemma check_parameters_is_ValueError:
  "check_parameters ks p = Inl e \<Longrightarrow> \<exists>m. e = ValueError m"
  by (induction ks) (auto split: option.splits if_splits)

lemma init_result:
  "fst (ParameterSet_init ks d s) = check_parameters ks (heap s d)"
  "fst (Meijaard2007ParameterSet_init d r s) = check_parameters Meijaard2007_par_strings (heap s d)"
  "fst (Moore2019ParameterSet_init d s) = check_parameters Moore2019_par_strings (heap s d)"
  by (auto simp: ParameterSet_init_def Meijaard2007ParameterSet_init_def
      Moore2019ParameterSet_init_def py_then_def py_bind_def split: sum.splits)

text \<open>
  Claim C2.  Construction (validation) of a parameter set succeeds exactly when every key
  of the schema table is present with a float value.  Otherwise it fails with the
  validation error that names the first key of the table, in table order, that is
  missing or not a float.  An integer at a required key makes it fail, and a key outside
  the table never changes the outcome.  Both subclasses validate with their own table.
\<close>

theorem validation_succeeds_iff_all_floats:
  "(fst (ParameterSet_init ks d s) = Inr () \<longleftrightarrow> (\<forall>k\<in>set ks. key_ok (heap s d) k))
   \<and> (fst (ParameterSet_init ks d s) \<noteq> Inr () \<longrightarrow>
        (\<exists>pre k post m. ks = pre @ k # post \<and> (\<forall>j\<in>set pre. key_ok (heap s d) j)
            \<and> \<not> key_ok (heap s d) k
            \<and> fst (ParameterSet_init ks d s) = Inl (ValueError m)
            \<and> offending_key (ValueError m) = Some k))
   \<and> (\<forall>k i. k \<in> set ks \<and> heap s d k = Some (PyInt i) \<longrightarrow>
          (\<exists>m. fst (ParameterSet_init ks d s) = Inl (ValueError m)))
   \<and> (\<forall>k' v. k' \<notin> set ks \<longrightarrow>
          fst (ParameterSet_init ks d (s\<lparr>heap := (heap s)(d := (heap s d)(k' \<mapsto> v))\<rparr>))
            = fst (ParameterSet_init ks d s))
   \<and> fst (Meijaard2007ParameterSet_init d r s) = fst (ParameterSet_init Meijaard2007_par_strings d s)
   \<and> fst (Moore2019ParameterSet_init d s) = fst (ParameterSet_init Moore2019_par_strings d s)"
proof -
  let ?p = "heap s d"
  have ok: "check_parameters ks ?p = Inr () \<longleftrightarrow> (\<forall>k\<in>set ks. key_ok ?p k)"
    by (rule check_parameters_ok_iff)
  have bad: "\<exists>pre k post m. ks = pre @ k # post \<and> (\<forall>j\<in>set pre. key_ok ?p j)
            \<and> \<not> key_ok ?p k \<and> check_parameters ks ?p = Inl (ValueError m)
            \<and> offending_key (ValueError m) = Some k"
    if "check_parameters ks ?p \<noteq> Inr ()"
  proof -
    from that obtain e where e: "check_parameters ks ?p = Inl e"
      by (cases "check_parameters ks ?p") auto
    from check_parameters_is_ValueError[OF e] obtain m where m: "e = ValueError m" by blast
    from check_parameters_names_first[OF e] m e show ?thesis by blast
  qed
  have int: "\<exists>m. check_parameters ks ?p = Inl (ValueError m)"
    if "k \<in> set ks" "?p k = Some (PyInt i)" for k i
  proof -
    from that have "\<not> key_ok ?p k" by (simp add: key_ok_def)
    with that(1) ok have "check_parameters ks ?p \<noteq> Inr ()" by blast
    from bad[OF this] show ?thesis by blast
  qed
  have extra: "check_parameters ks (?p(k' \<mapsto> v)) = check_parameters ks ?p"
    if "k' \<notin> set ks" for k' v
    using that by (rule check_parameters_extra)
  show ?thesis
    using ok bad int extra by (simp add: init_result) blast
qed

theorem validation_succeeds_iff_all_floats_witness:
  "list_all (key_ok (heap (state_of meijaard2007_parameters) 0)) Meijaard2007_par_strings
   \<and> fst (ParameterSet_init Meijaard2007_par_strings 0 (state_of meijaard2007_parameters)) = Inr ()
   \<and> ''w'' \<in> set Meijaard2007_par_strings
   \<and> heap (state_of (meijaard2007_parameters(''w'' \<mapsto> PyInt 1))) 0 ''w'' = Some (PyInt 1)
   \<and> fst (ParameterSet_init Meijaard2007_par_strings 0
            (state_of (meijaard2007_parameters(''w'' \<mapsto> PyInt 1))))
       = Inl (ValueError (NotValid (PyInt 1) ''w''))"
  using validation_succeeds_iff_all_floats
    [of Meijaard2007_par_strings 0 "state_of meijaard2007_parameters" True]
  by (simp add: Meijaard2007_par_strings_def state_of_def meijaard2007_parameters_def
      key_ok_def ParameterSet_init_def)

section \<open>The size of the schema tables\<close>

lemma Meijaard2007_par_strings_count:
  "distinct Meijaard2007_par_strings \<and> length Meijaard2007_par_strings = 27"
  by (simp add: Meijaard2007_par_strings_def)

lemma Moore2019_par_strings_count:
  "distinct Moore2019_par_strings \<and> length Moore2019_par_strings = 36"
  by (simp add: Moore2019_par_strings_def)

lemma dom_meijaard: "dom meijaard2007_parameters = set Meijaard2007_par_strings"
  unfolding meijaard2007_parameters_def dom_map_of_conv_image_fst Meijaard2007_par_strings_def
  by simp

lemma floats_meijaard: "\<forall>k\<in>set Meijaard2007_par_strings. key_ok meijaard2007_parameters k"
  by (simp add: meijaard2007_parameters_def Meijaard2007_par_strings_def key_ok_def)

text \<open>
  Claim C3, as stated: the benchmark table has 26 keys and the principal table 33.
  The tables of the source have 27 and 36.
\<close>

theorem required_key_count_counterexample:
  "\<not> (card (set Meijaard2007_par_strings) = 26 \<and> card (set Moore2019_par_strings) = 33)"
  using Meijaard2007_par_strings_count by (simp add: distinct_card)

text \<open>
  Claim C3, amended.  The benchmark table requires exactly 27 named floats and the
  principal table exactly 36: a dictionary whose keys are those of the table, all with
  float values, constructs, so that no other key is required, and a dictionary that
  lacks any one key of the table does not construct.
\<close>

theorem required_keys_27_and_36:
  "card (set Meijaard2007_par_strings) = 27 \<and> card (set Moore2019_par_strings) = 36
   \<and> (dom (heap s d) = set Meijaard2007_par_strings
        \<and> (\<forall>k\<in>dom (heap s d). key_ok (heap s d) k)
       \<longrightarrow> fst (Meijaard2007ParameterSet_init d r s) = Inr ())
   \<and> (\<forall>k\<in>set Meijaard2007_par_strings. heap s d k = None
        \<longrightarrow> fst (Meijaard2007ParameterSet_init d r s) \<noteq> Inr ())
   \<and> (dom (heap s d) = set Moore2019_par_strings
        \<and> (\<forall>k\<in>dom (heap s d). key_ok (heap s d) k)
       \<longrightarrow> fst (Moore2019ParameterSet_init d s) = Inr ())
   \<and> (\<forall>k\<in>set Moore2019_par_strings. heap s d k = None
        \<longrightarrow> fst (Moore2019ParameterSet_init d s) \<noteq> Inr ())"
proof -
  have a: "check_parameters ks (heap s d) = Inr ()"
    if "dom (heap s d) = set ks" "\<forall>k\<in>dom (heap s d). key_ok (heap s d) k" for ks
  proof -
    from that have "\<forall>k\<in>set ks. key_ok (heap s d) k" by auto
    then show ?thesis by (simp add: check_parameters_ok_iff)
  qed
  have b: "check_parameters ks (heap s d) \<noteq> Inr ()" if "k \<in> set ks" "heap s d k = None" for k ks
  proof -
    from that have "\<not> key_ok (heap s d) k" by (simp add: key_ok_def)
    with that(1) show ?thesis by (auto simp: check_parameters_ok_iff)
  qed
  have c: "card (set Meijaard2007_par_strings) = 27" "card (set Moore2019_par_strings) = 36"
    using Meijaard2007_par_strings_count Moore2019_par_strings_count by (simp_all add: distinct_card)
  show ?thesis
    unfolding init_result using a b c by blast
qed

theorem required_keys_27_and_36_witness:
  "dom (heap (state_of meijaard2007_parameters) 0) = set Meijaard2007_par_strings
   \<and> list_all (key_ok (heap (state_of meijaard2007_parameters) 0)) Meijaard2007_par_strings
   \<and> fst (Meijaard2007ParameterSet_init 0 True (state_of meijaard2007_parameters)) = Inr ()"
proof -
  have h: "heap (state_of meijaard2007_parameters) 0 = meijaard2007_parameters"
    by (simp add: state_of_def)
  show ?thesis
    using required_keys_27_and_36 [of "state_of meijaard2007_parameters" 0 True]
      dom_meijaard floats_meijaard
    unfolding h by (simp add: list_all_iff)
qed


section \<open>The sweep rule of the dynamics model\<close>

text \<open>
  Claim C1.  A call of one of the three entry points whose overrides hold two or more
  vectors fails with the sweep-conflict error, whatever the matrix work would have
  done; with at most one vector no entry point fails with that error.
\<close>

theorem sweep_conflict_iff_two_vectors:
  "(1 < vector_count overrides \<longrightarrow>
      form_reduced_canonical_matrices canonical overrides = Inl SweepConflictError
    \<and> form_state_space_matrices canonical realise overrides = Inl SweepConflictError
    \<and> calc_eigen canonical realise solve overrides = Inl SweepConflictError)
   \<and> (vector_count overrides \<le> 1 \<longrightarrow>
      form_reduced_canonical_matrices canonical overrides \<noteq> Inl SweepConflictError
    \<and> form_state_space_matrices canonical realise overrides \<noteq> Inl SweepConflictError
    \<and> calc_eigen canonical realise solve overrides \<noteq> Inl SweepConflictError)"
  by (auto simp: form_reduced_canonical_matrices_def form_state_space_matrices_def
      calc_eigen_def split: option.splits sum.splits)

theorem sweep_conflict_iff_two_vectors_witness:
  "1 < vector_count [(''w'', Vector [0.5, 1.5]), (''v'', Vector [1, 3])]
   \<and> form_reduced_canonical_matrices (\<lambda>ov. ())
        [(''w'', Vector [0.5, 1.5]), (''v'', Vector [1, 3])] = Inl SweepConflictError
   \<and> vector_count [(''w'', Vector [0.5, 1.5]), (''g'', Scalar 6)] \<le> 1
   \<and> calc_eigen (\<lambda>ov. ()) (\<lambda>m. Some ()) (\<lambda>ab. Some ())
        [(''w'', Vector [0.5, 1.5]), (''g'', Scalar 6)] \<noteq> Inl SweepConflictError"
  using sweep_conflict_iff_two_vectors
      [of "[(''w'', Vector [0.5, 1.5]), (''v'', Vector [1, 3])]" "\<lambda>ov. ()"
          "\<lambda>m. Some ()" "\<lambda>ab. Some ()"]
    sweep_conflict_iff_two_vectors
      [of "[(''w'', Vector [0.5, 1.5]), (''g'', Scalar 6)]" "\<lambda>ov. ()"
          "\<lambda>m. Some ()" "\<lambda>ab. Some ()"]
  by (simp add: vector_count_def)

section \<open>The queries return their values and leave the store as it was\<close>

lemmas monad_defs = ret_def raise_def py_bind_def py_then_def get_self_parameters_def
  dict_new_def dict_copy_def dict_update_def dict_setitem_def dict_getitem_def lift_def
  copy_item_def copy_item_neg_def

lemma frame_rel_iff:
  "frame_rel s s' \<longleftrightarrow>
     fresh s \<le> fresh s' \<and> self_parameters s' = self_parameters s \<and>
     self_includes_rider s' = self_includes_rider s \<and> (\<forall>a<fresh s. heap s' a = heap s a)"
  by (auto simp: frame_rel_def list_all_iff)

lemma frame_rel_refl: "frame_rel s s"
  by (simp add: frame_rel_iff)

lemma frame_rel_trans: "frame_rel s t \<Longrightarrow> frame_rel t u \<Longrightarrow> frame_rel s u"
  by (auto simp: frame_rel_iff)

lemma frame_rel_stored:
  "frame_rel s t \<Longrightarrow> self_parameters s < fresh s \<Longrightarrow>
     self_parameters t < fresh t \<and> heap t (self_parameters t) = heap s (self_parameters s)"
  by (auto simp: frame_rel_iff)

lemma Meijaard2007_calc_derived_params_char:
  assumes "self_parameters s < fresh s"
  shows "\<exists>s'. frame_rel s s' \<and>
     (case Meijaard2007_derived_value (heap s (self_parameters s)) of
        Inl e \<Rightarrow> Meijaard2007_calc_derived_params s = (Inl e, s')
      | Inr D \<Rightarrow> Meijaard2007_calc_derived_params s = (Inr (fresh s), s')
           \<and> heap s' (fresh s) = D \<and> fresh s < fresh s')"
  using assms
  unfolding Meijaard2007_calc_derived_params_def Meijaard2007_derived_value_def
  by (auto simp: monad_defs frame_rel_iff sum_bind_def lookup_def split: option.splits sum.splits)

lemma then_setitem:
  "py_then (dict_setitem pext k v) rest s =
     rest (s\<lparr>heap := (heap s)(pext := (heap s pext)(k \<mapsto> v))\<rparr>)"
  by (simp add: py_then_def py_bind_def dict_setitem_def)

lemma then_copy_item:
  "py_then (copy_item pext k p j) rest s =
     (case heap s p j of None \<Rightarrow> (Inl (KeyError j), s)
      | Some v \<Rightarrow> rest (s\<lparr>heap := (heap s)(pext := (heap s pext)(k \<mapsto> v))\<rparr>))"
  by (simp add: py_then_def py_bind_def dict_setitem_def copy_item_def dict_getitem_def
      split: option.splits)

lemma then_copy_item_neg:
  "py_then (copy_item_neg pext k p j) rest s =
     (case heap s p j of None \<Rightarrow> (Inl (KeyError j), s)
      | Some v \<Rightarrow> (case py_neg v of Inl e \<Rightarrow> (Inl e, s)
          | Inr n \<Rightarrow> rest (s\<lparr>heap := (heap s)(pext := (heap s pext)(k \<mapsto> n))\<rparr>)))"
  by (simp add: py_then_def py_bind_def dict_setitem_def copy_item_neg_def dict_getitem_def
      lift_def split: option.splits sum.splits)

lemma Moore2019_calc_derived_params_char:
  assumes "self_parameters s < fresh s"
  shows "\<exists>s'. frame_rel s s' \<and>
     (case Moore2019_derived_value (heap s (self_parameters s)) of
        Inl e \<Rightarrow> Moore2019_calc_derived_params s = (Inl e, s')
      | Inr D \<Rightarrow> Moore2019_calc_derived_params s = (Inr (fresh s), s')
           \<and> heap s' (fresh s) = D \<and> fresh s < fresh s')"
proof -
  have ne: "self_parameters s \<noteq> fresh s" using assms by simp
  have run: "Moore2019_calc_derived_params s =
    (let P = heap s (self_parameters s); s0 = s\<lparr>fresh := Suc (fresh s)\<rparr>;
         st = (\<lambda>D. s0\<lparr>heap := (heap s)(fresh s := D)\<rparr>);
         D8 = Map.empty(''alphaF'' \<mapsto> PyFloat 0.0, ''alphaR'' \<mapsto> PyFloat 0.0,
              ''yD'' \<mapsto> PyFloat 0.0, ''yP'' \<mapsto> PyFloat 0.0,
              ''yH'' \<mapsto> PyFloat 0.0, ''yR'' \<mapsto> PyFloat 0.0,
              ''yF'' \<mapsto> PyFloat 0.0, ''xR'' \<mapsto> PyFloat 0.0) in
     (case P ''w'' of None \<Rightarrow> (Inl (KeyError ''w''), st D8) | Some w \<Rightarrow>
     (case P ''rR'' of None \<Rightarrow> (Inl (KeyError ''rR''), st (D8(''xF'' \<mapsto> w))) | Some rr \<Rightarrow>
     (case py_neg rr of Inl e \<Rightarrow> (Inl e, st (D8(''xF'' \<mapsto> w))) | Inr zr \<Rightarrow>
     (case P ''rF'' of
        None \<Rightarrow> (Inl (KeyError ''rF''), st (D8(''xF'' \<mapsto> w, ''zR'' \<mapsto> zr)))
      | Some rf \<Rightarrow>
     (case py_neg rf of
        Inl e \<Rightarrow> (Inl e, st (D8(''xF'' \<mapsto> w, ''zR'' \<mapsto> zr)))
      | Inr zf \<Rightarrow>
     (case P ''kRaa'' of
        None \<Rightarrow> (Inl (KeyError ''kRaa''),
                 st (D8(''xF'' \<mapsto> w, ''zR'' \<mapsto> zr, ''zF'' \<mapsto> zf)))
      | Some kraa \<Rightarrow>
     (case P ''kFaa'' of
        None \<Rightarrow> (Inl (KeyError ''kFaa''),
                 st (D8(''xF'' \<mapsto> w, ''zR'' \<mapsto> zr, ''zF'' \<mapsto> zf, ''kRbb'' \<mapsto> kraa)))
      | Some kfaa \<Rightarrow>
          (Inr (fresh s),
           st (D8(''xF'' \<mapsto> w, ''zR'' \<mapsto> zr, ''zF'' \<mapsto> zf, ''kRbb'' \<mapsto> kraa,
                  ''kFbb'' \<mapsto> kfaa)))))))))))"
    unfolding Moore2019_calc_derived_params_def
    using ne
    by (simp add: py_bind_def get_self_parameters_def dict_new_def then_setitem then_copy_item
        then_copy_item_neg ret_def Let_def split: option.splits sum.splits)
  have fr: "frame_rel s (s\<lparr>fresh := Suc (fresh s), heap := (heap s)(fresh s := D)\<rparr>)" for D
    by (simp add: frame_rel_iff)
  show ?thesis
    unfolding run Moore2019_derived_value_def
    by (simp add: Let_def sum_bind_def lookup_def fr split: option.splits sum.splits)
qed

lemma parameters_with_derived_char:
  assumes wf: "self_parameters s < fresh s"
  shows "\<exists>s'. frame_rel s s' \<and>
     (case merged_value (heap s (self_parameters s)) of
        Inl e \<Rightarrow> Meijaard2007_parameters_with_derived s = (Inl e, s')
      | Inr d \<Rightarrow> \<exists>a. Meijaard2007_parameters_with_derived s = (Inr a, s')
           \<and> heap s' a = d \<and> a < fresh s')"
proof -
  let ?P = "heap s (self_parameters s)"
  let ?s1 = "s\<lparr>heap := (heap s)(fresh s := ?P), fresh := Suc (fresh s)\<rparr>"
  have wf1: "self_parameters ?s1 < fresh ?s1" using wf by simp
  have P1: "heap ?s1 (self_parameters ?s1) = ?P" using wf by simp
  have f01: "frame_rel s ?s1" using wf by (simp add: frame_rel_iff)
  from Meijaard2007_calc_derived_params_char[OF wf1] obtain s2 where f12: "frame_rel ?s1 s2" and
    c: "case Meijaard2007_derived_value ?P of
        Inl e \<Rightarrow> Meijaard2007_calc_derived_params ?s1 = (Inl e, s2)
      | Inr D \<Rightarrow> Meijaard2007_calc_derived_params ?s1 = (Inr (fresh ?s1), s2)
           \<and> heap s2 (fresh ?s1) = D \<and> fresh ?s1 < fresh s2"
    unfolding P1 by blast
  have f02: "frame_rel s s2" using f01 f12 by (rule frame_rel_trans)
  have run: "Meijaard2007_parameters_with_derived s =
     (case Meijaard2007_calc_derived_params ?s1 of
        (Inl e, t) \<Rightarrow> (Inl e, t)
      | (Inr pext, t) \<Rightarrow> (Inr (fresh s), t\<lparr>heap := (heap t)(fresh s := heap t (fresh s) ++ heap t pext)\<rparr>))"
    by (simp add: Meijaard2007_parameters_with_derived_def monad_defs split: prod.splits sum.splits)
  show ?thesis
  proof (cases "Meijaard2007_derived_value ?P")
    case (Inl e)
    with c run f02 show ?thesis by (auto simp: merged_value_def sum_bind_def)
  next
    case (Inr D)
    with c have c': "Meijaard2007_calc_derived_params ?s1 = (Inr (Suc (fresh s)), s2)"
      "heap s2 (Suc (fresh s)) = D" "Suc (fresh s) < fresh s2" by auto
    have "heap s2 (fresh s) = ?P" using f12 by (simp add: frame_rel_iff)
    with c' run f02 Inr show ?thesis
      by (auto simp: frame_rel_iff merged_value_def sum_bind_def
          intro!: exI[of _ "s2\<lparr>heap := (heap s2)(fresh s := ?P ++ D)\<rparr>"])
  qed
qed

lemma prologue_then_read:
  assumes wf: "self_parameters s < fresh s"
    and f: "\<And>a t. f a t = (g (heap t a), t)"
  shows "\<exists>s'. frame_rel s s' \<and>
     py_bind Meijaard2007_parameters_with_derived f s =
       (sum_bind (merged_value (heap s (self_parameters s))) g, s')"
proof -
  from parameters_with_derived_char[OF wf] obtain s' where fr: "frame_rel s s'" and
    c: "case merged_value (heap s (self_parameters s)) of
        Inl e \<Rightarrow> Meijaard2007_parameters_with_derived s = (Inl e, s')
      | Inr d \<Rightarrow> \<exists>a. Meijaard2007_parameters_with_derived s = (Inr a, s')
           \<and> heap s' a = d \<and> a < fresh s'"
    by blast
  show ?thesis
    using fr c by (auto simp: py_bind_def sum_bind_def f split: sum.splits intro!: exI[of _ s'])
qed

lemma form_mass_center_vector_char:
  assumes wf: "self_parameters s < fresh s"
  shows "\<exists>s'. frame_rel s s' \<and>
     form_mass_center_vector body s = (mass_center_vector_value (heap s (self_parameters s)) body, s')"
  unfolding form_mass_center_vector_def mass_center_vector_value_def
  by (rule prologue_then_read[OF wf])
     (simp add: monad_defs sum_bind_def lookup_def split: option.splits)

lemma form_inertia_tensor_char:
  assumes wf: "self_parameters s < fresh s"
  shows "\<exists>s'. frame_rel s s' \<and>
     form_inertia_tensor body s = (inertia_tensor_value (heap s (self_parameters s)) body, s')"
  unfolding form_inertia_tensor_def inertia_tensor_value_def
  by (rule prologue_then_read[OF wf])
     (simp add: monad_defs sum_bind_def lookup_def split: option.splits)

lemma mass_center_loop_char:
  assumes wf: "self_parameters s < fresh s"
  shows "\<exists>s'. frame_rel s s' \<and>
     mass_center_loop bodies cs ms s =
       (mass_center_loop_value (heap s (self_parameters s)) bodies cs ms, s')"
  using wf
proof (induction bodies arbitrary: cs ms s)
  case Nil
  then show ?case by (auto simp: ret_def intro: frame_rel_refl)
next
  case (Cons b bodies)
  let ?P = "heap s (self_parameters s)"
  show ?case
  proof (cases "?P (''m'' @ b)")
    case None
    then show ?thesis
      by (auto simp: monad_defs sum_bind_def lookup_def intro: frame_rel_refl)
  next
    case (Some m)
    from form_mass_center_vector_char[OF Cons.prems, of b] obtain s1 where
      f1: "frame_rel s s1" and
      r1: "form_mass_center_vector b s = (mass_center_vector_value ?P b, s1)" by blast
    show ?thesis
    proof (cases "mass_center_vector_value ?P b")
      case (Inl e)
      with Some f1 r1 show ?thesis
        by (auto simp: monad_defs sum_bind_def lookup_def)
    next
      case (Inr v)
      from frame_rel_stored[OF f1 Cons.prems] have wf1: "self_parameters s1 < fresh s1"
        and P1: "heap s1 (self_parameters s1) = ?P" by auto
      from Cons.IH[OF wf1, of "cs @ [squeeze v]" "ms @ [m]"] obtain s2 where
        f2: "frame_rel s1 s2" and
        r2: "mass_center_loop bodies (cs @ [squeeze v]) (ms @ [m]) s1 =
           (mass_center_loop_value ?P bodies (cs @ [squeeze v]) (ms @ [m]), s2)"
        unfolding P1 by blast
      from frame_rel_trans[OF f1 f2] Some Inr r1 r2 show ?thesis
        by (auto simp: monad_defs sum_bind_def lookup_def)
    qed
  qed
qed

lemma mass_center_of_char:
  assumes wf: "self_parameters s < fresh s"
  shows "\<exists>s'. frame_rel s s' \<and>
     mass_center_of bodies s = (mass_center_of_value (heap s (self_parameters s)) bodies, s')"
proof (cases "length bodies = 1")
  case True
  then show ?thesis
    using form_mass_center_vector_char[OF wf, of "hd bodies"]
    by (simp add: mass_center_of_def mass_center_of_value_def)
next
  case False
  from mass_center_loop_char[OF wf, of bodies "[]" "[]"] obtain s1 where
    f1: "frame_rel s s1" and
    r1: "mass_center_loop bodies [] [] s =
       (mass_center_loop_value (heap s (self_parameters s)) bodies [] [], s1)" by blast
  with False show ?thesis
    by (auto simp: mass_center_of_def mass_center_of_value_def monad_defs sum_bind_def
        split: sum.splits prod.splits)
qed

lemma planar_principal_radii_of_gyration_char:
  assumes wf: "self_parameters s < fresh s"
  shows "\<exists>s'. frame_rel s s' \<and>
     planar_principal_radii_of_gyration eig body s =
       (principal_radii_value eig (heap s (self_parameters s)) body, s')"
proof -
  let ?P = "heap s (self_parameters s)"
  from parameters_with_derived_char[OF wf] obtain s1 where f1: "frame_rel s s1" and
    c: "case merged_value ?P of
        Inl e \<Rightarrow> Meijaard2007_parameters_with_derived s = (Inl e, s1)
      | Inr d \<Rightarrow> \<exists>a. Meijaard2007_parameters_with_derived s = (Inr a, s1)
           \<and> heap s1 a = d \<and> a < fresh s1"
    by blast
  show ?thesis
  proof (cases "merged_value ?P")
    case (Inl e)
    with c f1 show ?thesis
      by (auto simp: planar_principal_radii_of_gyration_def principal_radii_value_def
          py_bind_def sum_bind_def)
  next
    case (Inr d)
    with c obtain a where r1: "Meijaard2007_parameters_with_derived s = (Inr a, s1)"
      and d: "heap s1 a = d" and a: "a < fresh s1" by auto
    from frame_rel_stored[OF f1 wf] have wf1: "self_parameters s1 < fresh s1"
      and P1: "heap s1 (self_parameters s1) = ?P" by auto
    from form_inertia_tensor_char[OF wf1, of body] obtain s2 where f2: "frame_rel s1 s2"
      and r2: "form_inertia_tensor body s1 = (inertia_tensor_value ?P body, s2)"
      unfolding P1 by blast
    have d2: "heap s2 a = d" using f2 a d by (simp add: frame_rel_iff)
    have f02: "frame_rel s s2" using f1 f2 by (rule frame_rel_trans)
    show ?thesis
    proof (cases "inertia_tensor_value ?P body")
      case (Inl e)
      with Inr r1 r2 f02 show ?thesis
        by (auto simp: planar_principal_radii_of_gyration_def principal_radii_value_def
            py_bind_def sum_bind_def)
    next
      case IH: (Inr IH)
      have "planar_principal_radii_of_gyration eig body s =
              (principal_radii_value eig ?P body, s2)"
        unfolding planar_principal_radii_of_gyration_def principal_radii_value_def
        using Inr IH r1 r2 d2
        by (simp add: py_bind_def sum_bind_def lift_def dict_getitem_def lookup_def ret_def
            Let_def split: sum.splits option.splits prod.splits)
      with f02 show ?thesis by blast
    qed
  qed
qed

section \<open>Derived parameters\<close>

lemma key_ok_float: "key_ok P k \<Longrightarrow> \<exists>x. P k = Some (PyFloat x)"
  by (cases "P k"; cases "the (P k)") (auto simp: key_ok_def)

lemma valid_Meijaard2007_float:
  assumes "valid_Meijaard2007 s" "k \<in> set Meijaard2007_par_strings"
  shows "\<exists>x. heap s (self_parameters s) k = Some (PyFloat x)"
  using assms by (auto simp: valid_Meijaard2007_def check_parameters_ok_iff intro: key_ok_float)

lemma valid_Moore2019_float:
  assumes "valid_Moore2019 s" "k \<in> set Moore2019_par_strings"
  shows "\<exists>x. heap s (self_parameters s) k = Some (PyFloat x)"
  using assms by (auto simp: valid_Moore2019_def check_parameters_ok_iff intro: key_ok_float)

lemma valid_meijaard2007_parameters: "valid_Meijaard2007 (state_of meijaard2007_parameters)"
  by (simp add: valid_Meijaard2007_def state_of_def meijaard2007_parameters_def
      Meijaard2007_par_strings_def)

text \<open>
  Claim C7.  On every valid benchmark set the derived-parameter computation returns a
  fresh dictionary of exactly these twelve entries: the wheel cross-inertias \<open>IFxz\<close> and
  \<open>IRxz\<close> are 0.0, the wheel z-inertias are the x-inertias, \<open>xF\<close> is the wheelbase,
  \<open>xR\<close> is 0.0, the four y-offsets are 0.0, and the wheel z-positions are the negated
  radii.
\<close>

theorem derived_parameters_of_benchmark_set:
  assumes v: "valid_Meijaard2007 s"
  shows "\<exists>IFxx IRxx w rF rR.
     heap s (self_parameters s) ''IFxx'' = Some (PyFloat IFxx) \<and>
     heap s (self_parameters s) ''IRxx'' = Some (PyFloat IRxx) \<and>
     heap s (self_parameters s) ''w'' = Some (PyFloat w) \<and>
     heap s (self_parameters s) ''rF'' = Some (PyFloat rF) \<and>
     heap s (self_parameters s) ''rR'' = Some (PyFloat rR) \<and>
     fst (Meijaard2007_calc_derived_params s) = Inr (fresh s) \<and>
     heap (snd (Meijaard2007_calc_derived_params s)) (fresh s) =
       Map.empty(''IFxz'' \<mapsto> PyFloat 0.0, ''IRxz'' \<mapsto> PyFloat 0.0,
         ''IFzz'' \<mapsto> PyFloat IFxx, ''IRzz'' \<mapsto> PyFloat IRxx,
         ''xF'' \<mapsto> PyFloat w, ''xR'' \<mapsto> PyFloat 0.0,
         ''yB'' \<mapsto> PyFloat 0.0, ''yF'' \<mapsto> PyFloat 0.0,
         ''yH'' \<mapsto> PyFloat 0.0, ''yR'' \<mapsto> PyFloat 0.0,
         ''zF'' \<mapsto> PyFloat (- rF), ''zR'' \<mapsto> PyFloat (- rR))"
proof -
  let ?P = "heap s (self_parameters s)"
  from v have wf: "self_parameters s < fresh s" by (simp add: valid_Meijaard2007_def)
  obtain IFxx where 1: "?P ''IFxx'' = Some (PyFloat IFxx)"
    using valid_Meijaard2007_float[OF v, of "''IFxx''"] by (auto simp: Meijaard2007_par_strings_def)
  obtain IRxx where 2: "?P ''IRxx'' = Some (PyFloat IRxx)"
    using valid_Meijaard2007_float[OF v, of "''IRxx''"] by (auto simp: Meijaard2007_par_strings_def)
  obtain w where 3: "?P ''w'' = Some (PyFloat w)"
    using valid_Meijaard2007_float[OF v, of "''w''"] by (auto simp: Meijaard2007_par_strings_def)
  obtain rF where 4: "?P ''rF'' = Some (PyFloat rF)"
    using valid_Meijaard2007_float[OF v, of "''rF''"] by (auto simp: Meijaard2007_par_strings_def)
  obtain rR where 5: "?P ''rR'' = Some (PyFloat rR)"
    using valid_Meijaard2007_float[OF v, of "''rR''"] by (auto simp: Meijaard2007_par_strings_def)
  have D: "Meijaard2007_derived_value ?P =
     Inr (Map.empty(''IFxz'' \<mapsto> PyFloat 0.0, ''IFzz'' \<mapsto> PyFloat IFxx,
         ''IRxz'' \<mapsto> PyFloat 0.0, ''IRzz'' \<mapsto> PyFloat IRxx,
         ''xF'' \<mapsto> PyFloat w, ''xR'' \<mapsto> PyFloat 0.0,
         ''yB'' \<mapsto> PyFloat 0.0, ''yF'' \<mapsto> PyFloat 0.0,
         ''yH'' \<mapsto> PyFloat 0.0, ''yR'' \<mapsto> PyFloat 0.0,
         ''zF'' \<mapsto> PyFloat (- rF), ''zR'' \<mapsto> PyFloat (- rR)))"
    by (simp add: Meijaard2007_derived_value_def sum_bind_def lookup_def 1 2 3 4 5)
  from Meijaard2007_calc_derived_params_char[OF wf] D obtain s' where
    "Meijaard2007_calc_derived_params s = (Inr (fresh s), s')"
    "heap s' (fresh s) = Map.empty(''IFxz'' \<mapsto> PyFloat 0.0, ''IFzz'' \<mapsto> PyFloat IFxx,
         ''IRxz'' \<mapsto> PyFloat 0.0, ''IRzz'' \<mapsto> PyFloat IRxx,
         ''xF'' \<mapsto> PyFloat w, ''xR'' \<mapsto> PyFloat 0.0,
         ''yB'' \<mapsto> PyFloat 0.0, ''yF'' \<mapsto> PyFloat 0.0,
         ''yH'' \<mapsto> PyFloat 0.0, ''yR'' \<mapsto> PyFloat 0.0,
         ''zF'' \<mapsto> PyFloat (- rF), ''zR'' \<mapsto> PyFloat (- rR))"
    by auto
  then have "fst (Meijaard2007_calc_derived_params s) = Inr (fresh s) \<and>
     heap (snd (Meijaard2007_calc_derived_params s)) (fresh s) =
       Map.empty(''IFxz'' \<mapsto> PyFloat 0.0, ''IRxz'' \<mapsto> PyFloat 0.0,
         ''IFzz'' \<mapsto> PyFloat IFxx, ''IRzz'' \<mapsto> PyFloat IRxx,
         ''xF'' \<mapsto> PyFloat w, ''xR'' \<mapsto> PyFloat 0.0,
         ''yB'' \<mapsto> PyFloat 0.0, ''yF'' \<mapsto> PyFloat 0.0,
         ''yH'' \<mapsto> PyFloat 0.0, ''yR'' \<mapsto> PyFloat 0.0,
         ''zF'' \<mapsto> PyFloat (- rF), ''zR'' \<mapsto> PyFloat (- rR))"
    by (simp add: fun_upd_twist)
  with 1 2 3 4 5 show ?thesis by blast
qed

theorem derived_parameters_of_benchmark_set_witness:
  "valid_Meijaard2007 (state_of meijaard2007_parameters) \<and>
   (\<exists>d. fst (Meijaard2007_calc_derived_params (state_of meijaard2007_parameters)) = Inr d \<and>
     heap (snd (Meijaard2007_calc_derived_params (state_of meijaard2007_parameters))) d ''xF''
       = Some (PyFloat 1.02) \<and>
     heap (snd (Meijaard2007_calc_derived_params (state_of meijaard2007_parameters))) d ''zF''
       = Some (PyFloat (- 0.35)) \<and>
     heap (snd (Meijaard2007_calc_derived_params (state_of meijaard2007_parameters))) d ''IRzz''
       = Some (PyFloat 0.0603))"
proof -
  have h: "heap (state_of meijaard2007_parameters) (self_parameters (state_of meijaard2007_parameters))
     = meijaard2007_parameters" by (simp add: state_of_def)
  from derived_parameters_of_benchmark_set[OF valid_meijaard2007_parameters]
  show ?thesis
    unfolding h using valid_meijaard2007_parameters
    by (auto simp: meijaard2007_parameters_def)
qed

section \<open>The queries are pure\<close>

lemma pure_query:
  assumes char: "\<And>t. self_parameters t < fresh t \<Longrightarrow>
            \<exists>t'. frame_rel t t' \<and> q t = (F (heap t (self_parameters t)), t')"
    and wf: "self_parameters s < fresh s"
  shows "frame_rel s (snd (q s)) \<and> fst (q s) = F (heap s (self_parameters s))
         \<and> fst (q (snd (q s))) = fst (q s)"
proof -
  from char[OF wf] obtain s1 where f1: "frame_rel s s1"
    and r1: "q s = (F (heap s (self_parameters s)), s1)" by blast
  from frame_rel_stored[OF f1 wf] have wf1: "self_parameters s1 < fresh s1"
    and P1: "heap s1 (self_parameters s1) = heap s (self_parameters s)" by auto
  from char[OF wf1] obtain s2 where "q s1 = (F (heap s (self_parameters s)), s2)"
    unfolding P1 by blast
  with f1 r1 show ?thesis by simp
qed

lemma fresh_dict_query:
  assumes char: "\<And>t. self_parameters t < fresh t \<Longrightarrow>
            \<exists>t'. frame_rel t t' \<and>
              (case F (heap t (self_parameters t)) of
                 Inl e \<Rightarrow> q t = (Inl e, t')
               | Inr D \<Rightarrow> q t = (Inr (fresh t), t') \<and> heap t' (fresh t) = D \<and> fresh t < fresh t')"
    and wf: "self_parameters s < fresh s"
  shows "frame_rel s (snd (q s)) \<and>
         (case F (heap s (self_parameters s)) of
            Inl e \<Rightarrow> fst (q s) = Inl e \<and> fst (q (snd (q s))) = Inl e
          | Inr D \<Rightarrow> (\<exists>a b. fst (q s) = Inr a \<and> fst (q (snd (q s))) = Inr b \<and>
                heap (snd (q s)) a = D \<and> heap (snd (q (snd (q s)))) b = D \<and>
                heap (snd (q (snd (q s)))) a = D))"
proof -
  let ?P = "heap s (self_parameters s)"
  from char[OF wf] obtain s1 where f1: "frame_rel s s1"
    and r1: "case F ?P of
                 Inl e \<Rightarrow> q s = (Inl e, s1)
               | Inr D \<Rightarrow> q s = (Inr (fresh s), s1) \<and> heap s1 (fresh s) = D \<and> fresh s < fresh s1"
    by blast
  from frame_rel_stored[OF f1 wf] have wf1: "self_parameters s1 < fresh s1"
    and P1: "heap s1 (self_parameters s1) = ?P" by auto
  from char[OF wf1] obtain s2 where f2: "frame_rel s1 s2"
    and r2: "case F ?P of
                 Inl e \<Rightarrow> q s1 = (Inl e, s2)
               | Inr D \<Rightarrow> q s1 = (Inr (fresh s1), s2) \<and> heap s2 (fresh s1) = D \<and> fresh s1 < fresh s2"
    unfolding P1 by blast
  show ?thesis
  proof (cases "F ?P")
    case (Inl e)
    with r1 r2 f1 show ?thesis by simp
  next
    case (Inr D)
    with r1 r2 have a: "q s = (Inr (fresh s), s1)" "heap s1 (fresh s) = D" "fresh s < fresh s1"
      "q s1 = (Inr (fresh s1), s2)" "heap s2 (fresh s1) = D" by auto
    from f2 a(3) a(2) have "heap s2 (fresh s) = D" by (simp add: frame_rel_iff)
    with a f1 Inr show ?thesis by simp
  qed
qed

text \<open>
  Claim C9.  On an instance whose dictionary exists (every valid instance is one), each
  query (mass-centre vector, centre of mass, inertia tensor, principal radii and angle,
  derived parameters of either class) leaves the instance attributes and every object
  that existed before the call as they were, the stored dictionary among them; what it
  returns is a function of the stored dictionary; and a second call returns the same
  (for the derived parameters: a fresh dictionary of the same contents).
\<close>

theorem queries_leave_stored_state_unchanged:
  assumes wf: "self_parameters s < fresh s"
  shows
   "(frame_rel s (snd (form_mass_center_vector body s))
     \<and> fst (form_mass_center_vector body s)
          = mass_center_vector_value (heap s (self_parameters s)) body
     \<and> fst (form_mass_center_vector body (snd (form_mass_center_vector body s)))
          = fst (form_mass_center_vector body s))
  \<and> (frame_rel s (snd (mass_center_of bodies s))
     \<and> fst (mass_center_of bodies s) = mass_center_of_value (heap s (self_parameters s)) bodies
     \<and> fst (mass_center_of bodies (snd (mass_center_of bodies s))) = fst (mass_center_of bodies s))
  \<and> (frame_rel s (snd (form_inertia_tensor body s))
     \<and> fst (form_inertia_tensor body s) = inertia_tensor_value (heap s (self_parameters s)) body
     \<and> fst (form_inertia_tensor body (snd (form_inertia_tensor body s)))
          = fst (form_inertia_tensor body s))
  \<and> (frame_rel s (snd (planar_principal_radii_of_gyration eig body s))
     \<and> fst (planar_principal_radii_of_gyration eig body s)
          = principal_radii_value eig (heap s (self_parameters s)) body
     \<and> fst (planar_principal_radii_of_gyration eig body
              (snd (planar_principal_radii_of_gyration eig body s)))
          = fst (planar_principal_radii_of_gyration eig body s))
  \<and> (frame_rel s (snd (Meijaard2007_calc_derived_params s))
     \<and> (case Meijaard2007_derived_value (heap s (self_parameters s)) of
          Inl e \<Rightarrow> fst (Meijaard2007_calc_derived_params s) = Inl e
                 \<and> fst (Meijaard2007_calc_derived_params
                          (snd (Meijaard2007_calc_derived_params s))) = Inl e
        | Inr D \<Rightarrow> (\<exists>a b. fst (Meijaard2007_calc_derived_params s) = Inr a
                 \<and> fst (Meijaard2007_calc_derived_params
                          (snd (Meijaard2007_calc_derived_params s))) = Inr b
                 \<and> heap (snd (Meijaard2007_calc_derived_params s)) a = D
                 \<and> heap (snd (Meijaard2007_calc_derived_params
                          (snd (Meijaard2007_calc_derived_params s)))) b = D
                 \<and> heap (snd (Meijaard2007_calc_derived_params
                          (snd (Meijaard2007_calc_derived_params s)))) a = D)))
  \<and> (frame_rel s (snd (Moore2019_calc_derived_params s))
     \<and> (case Moore2019_derived_value (heap s (self_parameters s)) of
          Inl e \<Rightarrow> fst (Moore2019_calc_derived_params s) = Inl e
                 \<and> fst (Moore2019_calc_derived_params
                          (snd (Moore2019_calc_derived_params s))) = Inl e
        | Inr D \<Rightarrow> (\<exists>a b. fst (Moore2019_calc_derived_params s) = Inr a
                 \<and> fst (Moore2019_calc_derived_params
                          (snd (Moore2019_calc_derived_params s))) = Inr b
                 \<and> heap (snd (Moore2019_calc_derived_params s)) a = D
                 \<and> heap (snd (Moore2019_calc_derived_params
                          (snd (Moore2019_calc_derived_params s)))) b = D
                 \<and> heap (snd (Moore2019_calc_derived_params
                          (snd (Moore2019_calc_derived_params s)))) a = D)))"
proof -
  note a = pure_query[where q = "form_mass_center_vector body"
      and F = "\<lambda>P. mass_center_vector_value P body",
      OF form_mass_center_vector_char wf]
  note b = pure_query[where q = "mass_center_of bodies"
      and F = "\<lambda>P. mass_center_of_value P bodies", OF mass_center_of_char wf]
  note c = pure_query[where q = "form_inertia_tensor body"
      and F = "\<lambda>P. inertia_tensor_value P body", OF form_inertia_tensor_char wf]
  note d = pure_query[where q = "planar_principal_radii_of_gyration eig body"
      and F = "\<lambda>P. principal_radii_value eig P body",
      OF planar_principal_radii_of_gyration_char wf]
  note e = fresh_dict_query[where q = Meijaard2007_calc_derived_params
      and F = Meijaard2007_derived_value, OF Meijaard2007_calc_derived_params_char wf]
  note f = fresh_dict_query[where q = Moore2019_calc_derived_params
      and F = Moore2019_derived_value, OF Moore2019_calc_derived_params_char wf]
  from a b c d e f show ?thesis by blast
qed

theorem queries_leave_stored_state_unchanged_witness:
  "self_parameters (state_of meijaard2007_parameters) < fresh (state_of meijaard2007_parameters)
   \<and> heap (snd (mass_center_of [''B'', ''H''] (state_of meijaard2007_parameters))) 0
        = meijaard2007_parameters
   \<and> self_parameters (snd (mass_center_of [''B'', ''H''] (state_of meijaard2007_parameters))) = 0
   \<and> self_includes_rider (snd (mass_center_of [''B'', ''H''] (state_of meijaard2007_parameters)))
        = Some True
   \<and> fst (mass_center_of [''B'', ''H'']
            (snd (mass_center_of [''B'', ''H''] (state_of meijaard2007_parameters))))
        = fst (mass_center_of [''B'', ''H''] (state_of meijaard2007_parameters))"
proof -
  have wf: "self_parameters (state_of meijaard2007_parameters)
              < fresh (state_of meijaard2007_parameters)"
    by (simp add: state_of_def)
  from queries_leave_stored_state_unchanged[OF wf, of "''B''" "[''B'', ''H'']"]
  have "frame_rel (state_of meijaard2007_parameters)
          (snd (mass_center_of [''B'', ''H''] (state_of meijaard2007_parameters)))"
    and "fst (mass_center_of [''B'', ''H'']
            (snd (mass_center_of [''B'', ''H''] (state_of meijaard2007_parameters))))
        = fst (mass_center_of [''B'', ''H''] (state_of meijaard2007_parameters))"
    by blast+
  with wf show ?thesis
    by (simp add: frame_rel_iff state_of_def)
qed

section \<open>The centre of mass\<close>

lemma those_map_PyFloat: "those (map py_num (map PyFloat xs)) = Some xs"
  by (induction xs) auto

lemma mass_center_loop_value_success:
  assumes "list_all (\<lambda>(b, m, x, y, z). P (''m'' @ b) = Some (PyFloat m) \<and>
              mass_center_vector_value P b = Inr (Arr2 [[PyFloat x], [PyFloat y], [PyFloat z]])) bs"
  shows "mass_center_loop_value P (map fst bs) cs ms =
           Inr (cs @ map (\<lambda>(b, m, x, y, z). Arr1 [PyFloat x, PyFloat y, PyFloat z]) bs,
                ms @ map (\<lambda>(b, m, x, y, z). PyFloat m) bs)"
  using assms
proof (induction bs arbitrary: cs ms)
  case Nil
  then show ?case by simp
next
  case (Cons a bs)
  obtain b m x y z where a: "a = (b, m, x, y, z)" by (cases a) auto
  from Cons.prems a have h: "P (''m'' @ b) = Some (PyFloat m)"
    "mass_center_vector_value P b = Inr (Arr2 [[PyFloat x], [PyFloat y], [PyFloat z]])"
    and rest: "list_all (\<lambda>(b, m, x, y, z). P (''m'' @ b) = Some (PyFloat m) \<and>
              mass_center_vector_value P b = Inr (Arr2 [[PyFloat x], [PyFloat y], [PyFloat z]])) bs"
    by auto
  show ?case
    using Cons.IH[OF rest, of "cs @ [Arr1 [PyFloat x, PyFloat y, PyFloat z]]" "ms @ [PyFloat m]"] h
    by (simp add: a sum_bind_def lookup_def)
qed

lemma np_array_T_triples:
  assumes "bs \<noteq> []"
  shows "np_array_T (map (\<lambda>(b, m, x, y, z). Arr1 [PyFloat x, PyFloat y, PyFloat z]) bs) =
           Arr2 [map PyFloat (map (\<lambda>(b, m, x, y, z). x) bs),
                 map PyFloat (map (\<lambda>(b, m, x, y, z). y) bs),
                 map PyFloat (map (\<lambda>(b, m, x, y, z). z) bs)]"
proof -
  let ?rows = "map items (map (\<lambda>(b, m, x, y, z). Arr1 [PyFloat x, PyFloat y, PyFloat z]) bs)"
  have "transpose ?rows = map (\<lambda>i. map (\<lambda>j. ?rows ! j ! i) [0..<length ?rows]) [0..<3]"
    by (rule transpose_rectangle) (use assms in \<open>auto simp: split_def\<close>)
  also have "[0..<3] = [0, 1, Suc 1]" by code_simp
  also have "map (\<lambda>i. map (\<lambda>j. ?rows ! j ! i) [0..<length ?rows]) [0, 1, Suc 1] =
                [map PyFloat (map (\<lambda>(b, m, x, y, z). x) bs),
                 map PyFloat (map (\<lambda>(b, m, x, y, z). y) bs),
                 map PyFloat (map (\<lambda>(b, m, x, y, z). z) bs)]"
    by (auto simp: split_def intro!: nth_equalityI)
  finally show ?thesis using assms by (simp add: np_array_T_def)
qed

lemma sum_list_map2_maps:
  "(\<Sum>p\<leftarrow>zip (map f bs) (map g bs). fst p * snd p) = (\<Sum>t\<leftarrow>bs. f t * g t)"
  by (induction bs) auto

lemma total_com_floats:
  "total_com (Arr2 [map PyFloat xs, map PyFloat ys, map PyFloat zs]) (map PyFloat ms) =
     (if sum_list ms = 0 then Inl FloatingPointError
      else Inr (sum_list ms,
             Arr1 [PyFloat (sum_list (map2 (*) ms xs) / sum_list ms),
                   PyFloat (sum_list (map2 (*) ms ys) / sum_list ms),
                   PyFloat (sum_list (map2 (*) ms zs) / sum_list ms)]))"
  by (simp add: total_com_def those_map_PyFloat del: map_map)

lemma mass_center_of_value_average:
  assumes all: "list_all (\<lambda>(b, m, x, y, z). P (''m'' @ b) = Some (PyFloat m) \<and>
              mass_center_vector_value P b = Inr (Arr2 [[PyFloat x], [PyFloat y], [PyFloat z]])) bs"
    and len: "length bs \<noteq> 1" and ne: "bs \<noteq> []"
    and mass: "sum_list (map (\<lambda>(b, m, x, y, z). m) bs) \<noteq> 0"
  shows "mass_center_of_value P (map fst bs) =
     Inr (Arr1 [PyFloat (sum_list (map (\<lambda>(b, m, x, y, z). m * x) bs)
                          / sum_list (map (\<lambda>(b, m, x, y, z). m) bs)),
                PyFloat (sum_list (map (\<lambda>(b, m, x, y, z). m * y) bs)
                          / sum_list (map (\<lambda>(b, m, x, y, z). m) bs)),
                PyFloat (sum_list (map (\<lambda>(b, m, x, y, z). m * z) bs)
                          / sum_list (map (\<lambda>(b, m, x, y, z). m) bs))])"
proof -
  have loop: "mass_center_loop_value P (map fst bs) [] [] =
           Inr (map (\<lambda>(b, m, x, y, z). Arr1 [PyFloat x, PyFloat y, PyFloat z]) bs,
                map PyFloat (map (\<lambda>(b, m, x, y, z). m) bs))"
    using mass_center_loop_value_success[OF all, of "[]" "[]"] by (simp add: split_def comp_def)
  have sx: "sum_list (map2 (*) (map (\<lambda>(b, m, x, y, z). m) bs) (map (\<lambda>(b, m, x, y, z). x) bs))
      = sum_list (map (\<lambda>(b, m, x, y, z). m * x) bs)"
    and sy: "sum_list (map2 (*) (map (\<lambda>(b, m, x, y, z). m) bs) (map (\<lambda>(b, m, x, y, z). y) bs))
      = sum_list (map (\<lambda>(b, m, x, y, z). m * y) bs)"
    and sz: "sum_list (map2 (*) (map (\<lambda>(b, m, x, y, z). m) bs) (map (\<lambda>(b, m, x, y, z). z) bs))
      = sum_list (map (\<lambda>(b, m, x, y, z). m * z) bs)"
    by (simp_all add: sum_list_map2_maps split_def)
  show ?thesis
    unfolding mass_center_of_value_def
    using len mass
    by (simp add: loop sum_bind_def np_array_T_triples[OF ne] total_com_floats sx sy sz
        del: map_map)
qed

lemma mass_center_loop_value_fails:
  assumes "b \<in> set bodies"
    and "P (''m'' @ b) = None \<or> (\<exists>e. mass_center_vector_value P b = Inl e)"
  shows "\<exists>e. mass_center_loop_value P bodies cs ms = Inl e"
  using assms(1)
proof (induction bodies arbitrary: cs ms)
  case Nil
  then show ?case by simp
next
  case (Cons a bodies)
  show ?case
  proof (cases "P (''m'' @ a)")
    case None
    then show ?thesis by (simp add: sum_bind_def lookup_def)
  next
    case (Some m)
    show ?thesis
    proof (cases "mass_center_vector_value P a")
      case (Inl e)
      with Some show ?thesis by (simp add: sum_bind_def lookup_def)
    next
      case (Inr v)
      with Some assms(2) have "a \<noteq> b" by auto
      with Cons.prems have "b \<in> set bodies" by simp
      from Cons.IH[OF this, of "cs @ [squeeze v]" "ms @ [m]"] Some Inr show ?thesis
        by (simp add: sum_bind_def lookup_def)
    qed
  qed
qed

lemma valid_Meijaard2007_merged:
  assumes v: "valid_Meijaard2007 s"
  shows "\<exists>IFxx IRxx w rF rR.
     merged_value (heap s (self_parameters s)) =
       Inr (heap s (self_parameters s) ++
         Map.empty(''IFxz'' \<mapsto> PyFloat 0.0, ''IFzz'' \<mapsto> PyFloat IFxx,
         ''IRxz'' \<mapsto> PyFloat 0.0, ''IRzz'' \<mapsto> PyFloat IRxx,
         ''xF'' \<mapsto> PyFloat w, ''xR'' \<mapsto> PyFloat 0.0,
         ''yB'' \<mapsto> PyFloat 0.0, ''yF'' \<mapsto> PyFloat 0.0,
         ''yH'' \<mapsto> PyFloat 0.0, ''yR'' \<mapsto> PyFloat 0.0,
         ''zF'' \<mapsto> PyFloat (- rF), ''zR'' \<mapsto> PyFloat (- rR)))"
proof -
  let ?P = "heap s (self_parameters s)"
  obtain IFxx where 1: "?P ''IFxx'' = Some (PyFloat IFxx)"
    using valid_Meijaard2007_float[OF v, of "''IFxx''"] by (auto simp: Meijaard2007_par_strings_def)
  obtain IRxx where 2: "?P ''IRxx'' = Some (PyFloat IRxx)"
    using valid_Meijaard2007_float[OF v, of "''IRxx''"] by (auto simp: Meijaard2007_par_strings_def)
  obtain w where 3: "?P ''w'' = Some (PyFloat w)"
    using valid_Meijaard2007_float[OF v, of "''w''"] by (auto simp: Meijaard2007_par_strings_def)
  obtain rF where 4: "?P ''rF'' = Some (PyFloat rF)"
    using valid_Meijaard2007_float[OF v, of "''rF''"] by (auto simp: Meijaard2007_par_strings_def)
  obtain rR where 5: "?P ''rR'' = Some (PyFloat rR)"
    using valid_Meijaard2007_float[OF v, of "''rR''"] by (auto simp: Meijaard2007_par_strings_def)
  have "merged_value ?P =
       Inr (?P ++
         Map.empty(''IFxz'' \<mapsto> PyFloat 0.0, ''IFzz'' \<mapsto> PyFloat IFxx,
         ''IRxz'' \<mapsto> PyFloat 0.0, ''IRzz'' \<mapsto> PyFloat IRxx,
         ''xF'' \<mapsto> PyFloat w, ''xR'' \<mapsto> PyFloat 0.0,
         ''yB'' \<mapsto> PyFloat 0.0, ''yF'' \<mapsto> PyFloat 0.0,
         ''yH'' \<mapsto> PyFloat 0.0, ''yR'' \<mapsto> PyFloat 0.0,
         ''zF'' \<mapsto> PyFloat (- rF), ''zR'' \<mapsto> PyFloat (- rR)))"
    by (simp add: merged_value_def Meijaard2007_derived_value_def sum_bind_def lookup_def 1 2 3 4 5)
  then show ?thesis by blast
qed

lemma valid_body_label:
  assumes v: "valid_Meijaard2007 s" and b: "b \<in> set Meijaard2007_body_labels"
  shows "\<exists>m x y z. heap s (self_parameters s) (''m'' @ b) = Some (PyFloat m) \<and>
     mass_center_vector_value (heap s (self_parameters s)) b
       = Inr (Arr2 [[PyFloat x], [PyFloat y], [PyFloat z]])"
proof -
  let ?P = "heap s (self_parameters s)"
  from valid_Meijaard2007_merged[OF v] obtain IFxx IRxx w rF rR where
    m: "merged_value ?P =
       Inr (?P ++
         Map.empty(''IFxz'' \<mapsto> PyFloat 0.0, ''IFzz'' \<mapsto> PyFloat IFxx,
         ''IRxz'' \<mapsto> PyFloat 0.0, ''IRzz'' \<mapsto> PyFloat IRxx,
         ''xF'' \<mapsto> PyFloat w, ''xR'' \<mapsto> PyFloat 0.0,
         ''yB'' \<mapsto> PyFloat 0.0, ''yF'' \<mapsto> PyFloat 0.0,
         ''yH'' \<mapsto> PyFloat 0.0, ''yR'' \<mapsto> PyFloat 0.0,
         ''zF'' \<mapsto> PyFloat (- rF), ''zR'' \<mapsto> PyFloat (- rR)))"
    by blast
  have fl: "\<exists>x. ?P k = Some (PyFloat x)" if "k \<in> set Meijaard2007_par_strings" for k
    using valid_Meijaard2007_float[OF v that] .
  from b consider "b = ''B''" | "b = ''F''" | "b = ''H''" | "b = ''R''"
    by (auto simp: Meijaard2007_body_labels_def)
  then show ?thesis
  proof cases
    case 1
    from fl[of "''mB''"] fl[of "''xB''"] fl[of "''zB''"] show ?thesis
      unfolding 1 mass_center_vector_value_def m
      by (auto simp: Meijaard2007_par_strings_def sum_bind_def lookup_def map_add_def)
  next
    case 2
    from fl[of "''mF''"] show ?thesis
      unfolding 2 mass_center_vector_value_def m
      by (auto simp: Meijaard2007_par_strings_def sum_bind_def lookup_def map_add_def)
  next
    case 3
    from fl[of "''mH''"] fl[of "''xH''"] fl[of "''zH''"] show ?thesis
      unfolding 3 mass_center_vector_value_def m
      by (auto simp: Meijaard2007_par_strings_def sum_bind_def lookup_def map_add_def)
  next
    case 4
    from fl[of "''mR''"] show ?thesis
      unfolding 4 mass_center_vector_value_def m
      by (auto simp: Meijaard2007_par_strings_def sum_bind_def lookup_def map_add_def)
  qed
qed

lemma unknown_body_label:
  assumes v: "valid_Meijaard2007 s"
    and d: "dom (heap s (self_parameters s)) = set Meijaard2007_par_strings"
    and b: "b \<notin> set Meijaard2007_body_labels"
  shows "heap s (self_parameters s) (''m'' @ b) = None \<and>
     mass_center_vector_value (heap s (self_parameters s)) b = Inl (KeyError (''x'' @ b))"
proof -
  let ?P = "heap s (self_parameters s)"
  from valid_Meijaard2007_merged[OF v] obtain IFxx IRxx w rF rR where
    m: "merged_value ?P =
       Inr (?P ++
         Map.empty(''IFxz'' \<mapsto> PyFloat 0.0, ''IFzz'' \<mapsto> PyFloat IFxx,
         ''IRxz'' \<mapsto> PyFloat 0.0, ''IRzz'' \<mapsto> PyFloat IRxx,
         ''xF'' \<mapsto> PyFloat w, ''xR'' \<mapsto> PyFloat 0.0,
         ''yB'' \<mapsto> PyFloat 0.0, ''yF'' \<mapsto> PyFloat 0.0,
         ''yH'' \<mapsto> PyFloat 0.0, ''yR'' \<mapsto> PyFloat 0.0,
         ''zF'' \<mapsto> PyFloat (- rF), ''zR'' \<mapsto> PyFloat (- rR)))"
    by blast
  have "''m'' @ b \<notin> set Meijaard2007_par_strings" "''x'' @ b \<notin> set Meijaard2007_par_strings"
    using b by (auto simp: Meijaard2007_par_strings_def Meijaard2007_body_labels_def)
  with d have n: "?P (''m'' @ b) = None" "?P (''x'' @ b) = None" by blast+
  from b have "b \<noteq> ''F''" "b \<noteq> ''R''" by (auto simp: Meijaard2007_body_labels_def)
  with n show ?thesis
    unfolding mass_center_vector_value_def m
    by (simp add: sum_bind_def lookup_def map_add_def)
qed

lemma form_mass_center_vector_fst:
  "self_parameters s < fresh s \<Longrightarrow>
     fst (form_mass_center_vector body s) = mass_center_vector_value (heap s (self_parameters s)) body"
  using form_mass_center_vector_char[of s body] by auto

lemma mass_center_of_fst:
  "self_parameters s < fresh s \<Longrightarrow>
     fst (mass_center_of bodies s) = mass_center_of_value (heap s (self_parameters s)) bodies"
  using mass_center_of_char[of s bodies] by auto

lemma valid_Meijaard2007_exists: "valid_Meijaard2007 s \<Longrightarrow> self_parameters s < fresh s"
  by (simp add: valid_Meijaard2007_def)

text \<open>
  Claim C8, amended.  On every valid benchmark set: the centre of mass of a single body
  is that body's mass-centre vector, the very same call; the centre of mass of
  two or more bodies whose masses do not sum to zero is the mass-weighted average
  \<open>sum (m_i * p_i) / sum m_i\<close> of their mass-centre positions, and each of the body
  labels has a mass and a position; the call fails if the body set is empty, or if a
  referenced label has no mass-centre vector (an x, y or z entry is missing) or, among
  several bodies, no mass entry.  When the dictionary has no keys beyond the schema,
  that is every label outside the body labels.
\<close>

theorem center_of_mass_of_bodies:
  assumes v: "valid_Meijaard2007 s"
  shows
   "mass_center_of [b] s = form_mass_center_vector b s
  \<and> (length bs \<noteq> 1 \<and> bs \<noteq> [] \<and>
      list_all (\<lambda>(b, m, x, y, z).
          heap s (self_parameters s) (''m'' @ b) = Some (PyFloat m) \<and>
          fst (form_mass_center_vector b s) = Inr (Arr2 [[PyFloat x], [PyFloat y], [PyFloat z]])) bs \<and>
      sum_list (map (\<lambda>(b, m, x, y, z). m) bs) \<noteq> 0
     \<longrightarrow> fst (mass_center_of (map fst bs) s) =
           Inr (Arr1 [PyFloat (sum_list (map (\<lambda>(b, m, x, y, z). m * x) bs)
                                / sum_list (map (\<lambda>(b, m, x, y, z). m) bs)),
                      PyFloat (sum_list (map (\<lambda>(b, m, x, y, z). m * y) bs)
                                / sum_list (map (\<lambda>(b, m, x, y, z). m) bs)),
                      PyFloat (sum_list (map (\<lambda>(b, m, x, y, z). m * z) bs)
                                / sum_list (map (\<lambda>(b, m, x, y, z). m) bs))]))
  \<and> (b \<in> set Meijaard2007_body_labels \<longrightarrow>
        (\<exists>m x y z. heap s (self_parameters s) (''m'' @ b) = Some (PyFloat m) \<and>
           fst (form_mass_center_vector b s) = Inr (Arr2 [[PyFloat x], [PyFloat y], [PyFloat z]])))
  \<and> fst (mass_center_of [] s) = Inl EmptyBodiesError
  \<and> (b \<in> set bodies \<and>
       ((\<exists>e. fst (form_mass_center_vector b s) = Inl e) \<or>
        (length bodies \<noteq> 1 \<and> heap s (self_parameters s) (''m'' @ b) = None))
     \<longrightarrow> (\<exists>e. fst (mass_center_of bodies s) = Inl e))
  \<and> (dom (heap s (self_parameters s)) = set Meijaard2007_par_strings \<and>
       b \<in> set bodies \<and> b \<notin> set Meijaard2007_body_labels
     \<longrightarrow> (\<exists>e. fst (mass_center_of bodies s) = Inl e))"
proof -
  let ?P = "heap s (self_parameters s)"
  note wf = valid_Meijaard2007_exists[OF v]
  note [simp] = form_mass_center_vector_fst[OF wf] mass_center_of_fst[OF wf]
  have one: "mass_center_of [b] s = form_mass_center_vector b s"
    by (simp add: mass_center_of_def)
  have avg: "mass_center_of_value ?P (map fst bs) =
           Inr (Arr1 [PyFloat (sum_list (map (\<lambda>(b, m, x, y, z). m * x) bs)
                                / sum_list (map (\<lambda>(b, m, x, y, z). m) bs)),
                      PyFloat (sum_list (map (\<lambda>(b, m, x, y, z). m * y) bs)
                                / sum_list (map (\<lambda>(b, m, x, y, z). m) bs)),
                      PyFloat (sum_list (map (\<lambda>(b, m, x, y, z). m * z) bs)
                                / sum_list (map (\<lambda>(b, m, x, y, z). m) bs))])"
    if "length bs \<noteq> 1" "bs \<noteq> []"
      "list_all (\<lambda>(b, m, x, y, z). ?P (''m'' @ b) = Some (PyFloat m) \<and>
          mass_center_vector_value ?P b = Inr (Arr2 [[PyFloat x], [PyFloat y], [PyFloat z]])) bs"
      "sum_list (map (\<lambda>(b, m, x, y, z). m) bs) \<noteq> 0"
    using mass_center_of_value_average[OF that(3) that(1) that(2) that(4)] .
  have lab: "\<exists>m x y z. ?P (''m'' @ b) = Some (PyFloat m) \<and>
           mass_center_vector_value ?P b = Inr (Arr2 [[PyFloat x], [PyFloat y], [PyFloat z]])"
    if "b \<in> set Meijaard2007_body_labels"
    using valid_body_label[OF v that] .
  have emp: "mass_center_of_value ?P [] = Inl EmptyBodiesError"
    by (simp add: mass_center_of_value_def sum_bind_def np_array_T_def total_com_def)
  have fails: "\<exists>e. mass_center_of_value ?P bodies = Inl e"
    if b: "b \<in> set bodies"
      and c: "(\<exists>e. mass_center_vector_value ?P b = Inl e) \<or>
              (length bodies \<noteq> 1 \<and> ?P (''m'' @ b) = None)"
  proof (cases "length bodies = 1")
    case True
    with b have "bodies = [b]" by (cases bodies) auto
    with c show ?thesis by (auto simp: mass_center_of_value_def)
  next
    case False
    from c have "?P (''m'' @ b) = None \<or> (\<exists>e. mass_center_vector_value ?P b = Inl e)" by blast
    from mass_center_loop_value_fails[OF b this, of "[]" "[]"] False show ?thesis
      by (auto simp: mass_center_of_value_def sum_bind_def)
  qed
  have unknown: "\<exists>e. mass_center_of_value ?P bodies = Inl e"
    if "dom ?P = set Meijaard2007_par_strings" "b \<in> set bodies"
       "b \<notin> set Meijaard2007_body_labels"
    using fails[OF that(2)] unknown_body_label[OF v that(1) that(3)] by blast
  show ?thesis
    using one avg lab emp fails unknown by simp
qed

lemma valid_parameters_with_extra_keys: "valid_Meijaard2007 (state_of parameters_with_extra_keys)"
  by (simp add: valid_Meijaard2007_def state_of_def meijaard2007_parameters_def
      Meijaard2007_par_strings_def parameters_with_extra_keys_def)

lemma valid_two_unit_masses: "valid_Meijaard2007 (state_of two_unit_masses)"
  by (simp add: valid_Meijaard2007_def state_of_def meijaard2007_parameters_def
      Meijaard2007_par_strings_def two_unit_masses_def)

lemma stored_state_of: "heap (state_of d) (self_parameters (state_of d)) = d"
  by (simp add: state_of_def)

text \<open>
  Claim C8, as stated, has the call fail for every label outside the body labels.  The
  code never consults the body labels: it looks the label's keys up, and a valid set may
  hold keys beyond the schema.  With entries \<open>xQ\<close>, \<open>yQ\<close>, \<open>zQ\<close> the centre of mass of
  \<open>Q\<close> is returned.
\<close>

theorem center_of_mass_unlisted_label_counterexample:
  "valid_Meijaard2007 (state_of parameters_with_extra_keys)
   \<and> ''Q'' \<notin> set Meijaard2007_body_labels
   \<and> fst (mass_center_of [''Q''] (state_of parameters_with_extra_keys))
       = Inr (Arr2 [[PyFloat 1], [PyFloat 0], [PyFloat 0]])"
proof -
  have "mass_center_of_value parameters_with_extra_keys [''Q'']
       = Inr (Arr2 [[PyFloat 1], [PyFloat 0], [PyFloat 0]])"
    by (simp add: mass_center_of_value_def mass_center_vector_value_def merged_value_def
        Meijaard2007_derived_value_def sum_bind_def lookup_def map_add_def
        parameters_with_extra_keys_def meijaard2007_parameters_def)
  then show ?thesis
    using valid_parameters_with_extra_keys
      mass_center_of_fst[OF valid_Meijaard2007_exists[OF valid_parameters_with_extra_keys]]
    by (simp add: stored_state_of Meijaard2007_body_labels_def)
qed

lemma two_unit_masses_R:
  "mass_center_vector_value two_unit_masses ''R'' = Inr (Arr2 [[PyFloat 0], [PyFloat 0], [PyFloat 0]])"
  by (simp add: mass_center_vector_value_def merged_value_def
        Meijaard2007_derived_value_def sum_bind_def lookup_def map_add_def
        two_unit_masses_def meijaard2007_parameters_def)

lemma two_unit_masses_F:
  "mass_center_vector_value two_unit_masses ''F'' = Inr (Arr2 [[PyFloat 2], [PyFloat 0], [PyFloat 0]])"
  by (simp add: mass_center_vector_value_def merged_value_def
        Meijaard2007_derived_value_def sum_bind_def lookup_def map_add_def
        two_unit_masses_def meijaard2007_parameters_def)

theorem center_of_mass_of_bodies_witness:
  "valid_Meijaard2007 (state_of two_unit_masses)
   \<and> heap (state_of two_unit_masses) (self_parameters (state_of two_unit_masses)) ''mR''
        = Some (PyFloat 1)
   \<and> heap (state_of two_unit_masses) (self_parameters (state_of two_unit_masses)) ''mF''
        = Some (PyFloat 1)
   \<and> fst (form_mass_center_vector ''R'' (state_of two_unit_masses))
        = Inr (Arr2 [[PyFloat 0], [PyFloat 0], [PyFloat 0]])
   \<and> fst (form_mass_center_vector ''F'' (state_of two_unit_masses))
        = Inr (Arr2 [[PyFloat 2], [PyFloat 0], [PyFloat 0]])
   \<and> fst (mass_center_of [''R'', ''F''] (state_of two_unit_masses))
        = Inr (Arr1 [PyFloat 1, PyFloat 0, PyFloat 0])
   \<and> fst (mass_center_of [''R'', ''X''] (state_of two_unit_masses))
        = Inl (KeyError ''mX'')"
proof -
  note v = valid_two_unit_masses
  note wf = valid_Meijaard2007_exists[OF v]
  have m: "heap (state_of two_unit_masses) (self_parameters (state_of two_unit_masses)) ''mR''
        = Some (PyFloat 1)"
    "heap (state_of two_unit_masses) (self_parameters (state_of two_unit_masses)) ''mF''
        = Some (PyFloat 1)"
    by (simp_all add: stored_state_of two_unit_masses_def)
  have r: "fst (form_mass_center_vector ''R'' (state_of two_unit_masses))
        = Inr (Arr2 [[PyFloat 0], [PyFloat 0], [PyFloat 0]])"
    "fst (form_mass_center_vector ''F'' (state_of two_unit_masses))
        = Inr (Arr2 [[PyFloat 2], [PyFloat 0], [PyFloat 0]])"
    by (simp_all add: form_mass_center_vector_fst[OF wf] stored_state_of
        two_unit_masses_R two_unit_masses_F)
  have x: "heap (state_of two_unit_masses) (self_parameters (state_of two_unit_masses)) ''mX''
        = None"
    by (simp add: stored_state_of two_unit_masses_def meijaard2007_parameters_def)
  from center_of_mass_of_bodies[OF v,
      of "''X''" "[(''R'', 1, 0, 0, 0), (''F'', 1, 2, 0, 0)]" "[''R'', ''X'']"]
  have a: "fst (mass_center_of [''R'', ''F''] (state_of two_unit_masses))
        = Inr (Arr1 [PyFloat 1, PyFloat 0, PyFloat 0])"
    and b: "\<exists>e. fst (mass_center_of [''R'', ''X''] (state_of two_unit_masses)) = Inl e"
    using m r x by simp_all
  have "fst (mass_center_of [''R'', ''X''] (state_of two_unit_masses)) = Inl (KeyError ''mX'')"
    using m x two_unit_masses_R
    by (simp add: mass_center_of_fst[OF wf] mass_center_of_value_def sum_bind_def lookup_def
        stored_state_of)
  with v m r a show ?thesis by simp
qed

lemma mass_center_vector_value_form:
  "mass_center_vector_value P b = Inr v \<Longrightarrow> \<exists>x y z. v = Arr2 [[x], [y], [z]]"
  by (auto simp: mass_center_vector_value_def sum_bind_def lookup_def
      split: sum.splits option.splits)

lemma mass_center_loop_value_coordinates:
  assumes "mass_center_loop_value P bodies cs ms = Inr (cs', ms')"
    and "\<forall>c\<in>set cs. length (items c) = 3"
  shows "\<forall>c\<in>set cs'. length (items c) = 3"
  using assms
proof (induction bodies arbitrary: cs ms)
  case Nil
  then show ?case by simp
next
  case (Cons b bodies)
  from Cons.prems(1) obtain m v where
    v: "mass_center_vector_value P b = Inr v" and
    r: "mass_center_loop_value P bodies (cs @ [squeeze v]) (ms @ [m]) = Inr (cs', ms')"
    by (auto simp: sum_bind_def lookup_def split: sum.splits option.splits)
  from mass_center_vector_value_form[OF v] have "length (items (squeeze v)) = 3" by auto
  with Cons.prems(2) have "\<forall>c\<in>set (cs @ [squeeze v]). length (items c) = 3" by simp
  from Cons.IH[OF r this] show ?case .
qed

lemma those_length: "those xs = Some ys \<Longrightarrow> length ys = length xs"
  by (induction xs arbitrary: ys) (auto split: option.splits)

lemma total_com_shape:
  assumes "total_com (np_array_T cs) ms = Inr (mass, com)"
    and "\<forall>c\<in>set cs. length (items c) = 3"
  shows "shape com = [3]"
proof -
  from assms(1) have ne: "cs \<noteq> []" by (auto simp: total_com_def np_array_T_def)
  let ?rows = "map items cs"
  have "transpose ?rows = map (\<lambda>i. map (\<lambda>j. ?rows ! j ! i) [0..<length ?rows]) [0..<3]"
    by (rule transpose_rectangle) (use assms(2) ne in auto)
  then have len: "length (transpose ?rows) = 3" by simp
  from assms(1) ne obtain rs where
    "those (map (\<lambda>r. those (map py_num r)) (transpose ?rows)) = Some rs"
    "\<exists>f. com = Arr1 (map f rs)"
    by (auto simp: total_com_def np_array_T_def split: option.splits if_splits)
  with those_length[OF this(1)] len show ?thesis by auto
qed

lemma mass_center_of_value_shapes:
  assumes "mass_center_of_value P bodies = Inr r"
  shows "if length bodies = 1 then shape r = [3, 1] \<and> mass_center_vector_value P (hd bodies) = Inr r
         else shape r = [3]"
proof (cases "length bodies = 1")
  case True
  with assms have v: "mass_center_vector_value P (hd bodies) = Inr r"
    by (simp add: mass_center_of_value_def)
  from mass_center_vector_value_form[OF v] v True show ?thesis by auto
next
  case False
  with assms obtain cs ms mass where
    l: "mass_center_loop_value P bodies [] [] = Inr (cs, ms)" and
    t: "total_com (np_array_T cs) ms = Inr (mass, r)"
    by (auto simp: mass_center_of_value_def sum_bind_def split: sum.splits)
  from mass_center_loop_value_coordinates[OF l] have "\<forall>c\<in>set cs. length (items c) = 3" by simp
  from total_com_shape[OF t this] False show ?thesis by simp
qed

text \<open>
  Claim C10.  On every valid benchmark set the centre-of-mass query returns arrays of
  two shapes: with one body label the result is the \<open>(3, 1)\<close> column of the
  mass-centre-vector query, with two or more it is a flat array of shape \<open>(3,)\<close>.  Both
  kinds of call do return: the first for each body label, the second for bodies whose
  masses do not sum to zero.
\<close>

theorem center_of_mass_shape_depends_on_body_count:
  assumes v: "valid_Meijaard2007 s"
  shows
   "(fst (mass_center_of [b] s) = Inr r \<longrightarrow>
        shape r = [3, 1] \<and> fst (form_mass_center_vector b s) = Inr r)
  \<and> (2 \<le> length bodies \<and> fst (mass_center_of bodies s) = Inr r \<longrightarrow> shape r = [3])
  \<and> (b \<in> set Meijaard2007_body_labels \<longrightarrow>
        (\<exists>r. fst (mass_center_of [b] s) = Inr r \<and> shape r = [3, 1]))
  \<and> (2 \<le> length bs \<and>
      list_all (\<lambda>(b, m, x, y, z).
          heap s (self_parameters s) (''m'' @ b) = Some (PyFloat m) \<and>
          fst (form_mass_center_vector b s) = Inr (Arr2 [[PyFloat x], [PyFloat y], [PyFloat z]])) bs \<and>
      sum_list (map (\<lambda>(b, m, x, y, z). m) bs) \<noteq> 0
     \<longrightarrow> (\<exists>r. fst (mass_center_of (map fst bs) s) = Inr r \<and> shape r = [3]))"
proof -
  let ?P = "heap s (self_parameters s)"
  note wf = valid_Meijaard2007_exists[OF v]
  note [simp] = form_mass_center_vector_fst[OF wf] mass_center_of_fst[OF wf]
  have one: "shape r = [3, 1] \<and> mass_center_vector_value ?P b = Inr r"
    if "mass_center_of_value ?P [b] = Inr r"
    using mass_center_of_value_shapes[OF that] by simp
  have many: "shape r = [3]" if "2 \<le> length bodies" "mass_center_of_value ?P bodies = Inr r"
    using mass_center_of_value_shapes[OF that(2)] that(1) by simp
  have lab: "\<exists>r. mass_center_of_value ?P [b] = Inr r \<and> shape r = [3, 1]"
    if "b \<in> set Meijaard2007_body_labels"
    using valid_body_label[OF v that] by (auto simp: mass_center_of_value_def)
  have avg: "\<exists>r. mass_center_of_value ?P (map fst bs) = Inr r \<and> shape r = [3]"
    if "2 \<le> length bs"
      "list_all (\<lambda>(b, m, x, y, z). ?P (''m'' @ b) = Some (PyFloat m) \<and>
          mass_center_vector_value ?P b = Inr (Arr2 [[PyFloat x], [PyFloat y], [PyFloat z]])) bs"
      "sum_list (map (\<lambda>(b, m, x, y, z). m) bs) \<noteq> 0"
  proof -
    from that(1) have "length bs \<noteq> 1" "bs \<noteq> []" by auto
    from mass_center_of_value_average[OF that(2) this that(3)] show ?thesis by simp
  qed
  show ?thesis
    using one many lab avg by simp
qed

theorem center_of_mass_shape_depends_on_body_count_witness:
  "valid_Meijaard2007 (state_of two_unit_masses)
   \<and> shape (Arr2 [[PyFloat 2], [PyFloat 0], [PyFloat 0]]) = [3, 1]
   \<and> fst (mass_center_of [''F''] (state_of two_unit_masses))
        = Inr (Arr2 [[PyFloat 2], [PyFloat 0], [PyFloat 0]])
   \<and> shape (Arr1 [PyFloat 1, PyFloat 0, PyFloat 0]) = [3]
   \<and> fst (mass_center_of [''R'', ''F''] (state_of two_unit_masses))
        = Inr (Arr1 [PyFloat 1, PyFloat 0, PyFloat 0])"
proof -
  note v = valid_two_unit_masses
  note wf = valid_Meijaard2007_exists[OF v]
  have one: "fst (mass_center_of [''F''] (state_of two_unit_masses))
        = Inr (Arr2 [[PyFloat 2], [PyFloat 0], [PyFloat 0]])"
    by (simp add: mass_center_of_fst[OF wf] stored_state_of mass_center_of_value_def
        two_unit_masses_F)
  have two: "fst (mass_center_of [''R'', ''F''] (state_of two_unit_masses))
        = Inr (Arr1 [PyFloat 1, PyFloat 0, PyFloat 0])"
  proof -
    have m: "two_unit_masses ''mR'' = Some (PyFloat 1)" "two_unit_masses ''mF'' = Some (PyFloat 1)"
      by (simp_all add: two_unit_masses_def)
    from mass_center_of_value_average[of two_unit_masses
        "[(''R'', 1, 0, 0, 0), (''F'', 1, 2, 0, 0)]"]
    show ?thesis
      using m by (simp add: mass_center_of_fst[OF wf] stored_state_of two_unit_masses_R
          two_unit_masses_F)
  qed
  from center_of_mass_shape_depends_on_body_count[OF v, of "''F''"
      "Arr2 [[PyFloat 2], [PyFloat 0], [PyFloat 0]]" "[''R'', ''F'']" "[]"]
    center_of_mass_shape_depends_on_body_count[OF v, of "''F''"
      "Arr1 [PyFloat 1, PyFloat 0, PyFloat 0]" "[''R'', ''F'']" "[]"]
  show ?thesis using v one two by simp
qed

section \<open>Principal axes: decomposition and reconstruction\<close>

lemma unit_ratio:
  fixes x y :: real
  assumes u: "x * x + y * y = 1" and x: "x \<noteq> 0"
  shows "sqrt (1 + (y / x)\<^sup>2) = 1 / \<bar>x\<bar>"
proof -
  have "1 + (y / x)\<^sup>2 = (x * x + y * y) / (x * x)"
    using x by (simp add: power2_eq_square field_simps)
  also have "\<dots> = (1 / \<bar>x\<bar>)\<^sup>2" using u by (simp add: power2_eq_square)
  finally show ?thesis by simp
qed

lemma cos_sin_arctan_unit:
  fixes x y :: real
  assumes u: "x * x + y * y = 1" and x: "x \<noteq> 0"
  shows "cos (arctan (y / x)) = \<bar>x\<bar>" "sin (arctan (y / x)) = y / x * \<bar>x\<bar>"
  using unit_ratio[OF u x] x by (simp_all add: cos_arctan sin_arctan)

lemma arctan2_unit:
  fixes x y :: real
  assumes u: "x * x + y * y = 1"
  shows "cos (arctan2 y x) = x \<and> sin (arctan2 y x) = y"
proof -
  consider "0 < x" | "x < 0" "0 \<le> y" | "x < 0" "y < 0" | "x = 0" "0 < y" | "x = 0" "y < 0"
    | "x = 0" "y = 0" by linarith
  then show ?thesis
  proof cases
    case 1
    then show ?thesis using cos_sin_arctan_unit[OF u] by (simp add: arctan2_def)
  next
    case 2
    then show ?thesis using cos_sin_arctan_unit[OF u] by (simp add: arctan2_def)
  next
    case 3
    then show ?thesis using cos_sin_arctan_unit[OF u] by (simp add: arctan2_def)
  next
    case 4
    with u have "y * y = 1" by simp
    then have "y = 1 \<or> y = - 1" by (simp add: square_eq_1_iff)
    with 4 have "y = 1" by auto
    with 4 show ?thesis by (simp add: arctan2_def)
  next
    case 5
    with u have "y * y = 1" by simp
    then have "y = 1 \<or> y = - 1" by (simp add: square_eq_1_iff)
    with 5 have "y = - 1" by auto
    with 5 show ?thesis by (simp add: arctan2_def)
  next
    case 6
    with u show ?thesis by simp
  qed
qed

lemma eigen_trace:
  fixes a b d :: real
  assumes "a * ex + b * ez = l1 * ex" "b * ex + d * ez = l1 * ez"
    and "a * fx + b * fz = l0 * fx" "b * fx + d * fz = l0 * fz"
    and det: "ex * fz - fx * ez \<noteq> 0"
  shows "a + d = l0 + l1"
proof -
  have "(a + d - l0 - l1) * (ex * fz - fx * ez) = 0"
    using assms(1-4) by algebra
  with det show ?thesis by simp
qed

lemma eigen_reconstruction:
  fixes a b d :: real
  assumes e1: "a * ex + b * ez = l1 * ex" and e2: "b * ex + d * ez = l1 * ez"
    and f1: "a * fx + b * fz = l0 * fx" and f2: "b * fx + d * fz = l0 * fz"
    and u: "ex * ex + ez * ez = 1"
    and det: "ex * fz - fx * ez \<noteq> 0"
  shows "l1 * (ex * ex) + l0 * (ez * ez) = a"
    and "l1 * (ez * ez) + l0 * (ex * ex) = d"
    and "(l1 - l0) * (ex * ez) = b"
proof -
  from eigen_trace[OF e1 e2 f1 f2 det] have t: "l0 = a + d - l1" by simp
  show "l1 * (ex * ex) + l0 * (ez * ez) = a"
    unfolding t using e1 e2 u by algebra
  show "l1 * (ez * ez) + l0 * (ex * ex) = d"
    unfolding t using e1 e2 u by algebra
  show "(l1 - l0) * (ex * ez) = b"
    unfolding t using e1 e2 u by algebra
qed

lemma psd_form:
  fixes a b d x y :: real
  assumes a: "0 \<le> a" and d: "0 \<le> d" and det: "b * b \<le> a * d"
  shows "0 \<le> a * (x * x) + 2 * b * (x * y) + d * (y * y)"
proof (cases "a = 0")
  case True
  with det have "b * b \<le> 0" by simp
  then have "b = 0" by (auto simp: mult_le_0_iff)
  with True d show ?thesis by simp
next
  case False
  with a have pos: "0 < a" by simp
  have "a * (a * (x * x) + 2 * b * (x * y) + d * (y * y))
      = (a * x + b * y) * (a * x + b * y) + (a * d - b * b) * (y * y)"
    by algebra
  also have "\<dots> \<ge> 0" using det by simp
  finally show ?thesis using pos by (simp add: zero_le_mult_iff)
qed

lemma eigenvalue_nonneg:
  fixes a b d :: real
  assumes e1: "a * ex + b * ez = l * ex" and e2: "b * ex + d * ez = l * ez"
    and u: "ex * ex + ez * ez = 1"
    and psd: "0 \<le> a" "0 \<le> d" "b * b \<le> a * d"
  shows "0 \<le> l"
proof -
  have "l = l * (ex * ex + ez * ez)" using u by simp
  also have "\<dots> = ex * (l * ex) + ez * (l * ez)" by algebra
  also have "\<dots> = a * (ex * ex) + 2 * b * (ex * ez) + d * (ez * ez)"
    unfolding e1[symmetric] e2[symmetric] by algebra
  finally show ?thesis using psd_form[OF psd] by simp
qed

lemma derived_has_no_mass:
  "Meijaard2007_derived_value P = Inr D \<Longrightarrow> D (''m'' @ b) = None"
  by (auto simp: Meijaard2007_derived_value_def sum_bind_def lookup_def
      split: sum.splits option.splits)

lemma merged_mass:
  assumes "merged_value P = Inr p"
  shows "p (''m'' @ b) = P (''m'' @ b)"
proof -
  from assms obtain D where D: "Meijaard2007_derived_value P = Inr D" "p = P ++ D"
    by (auto simp: merged_value_def sum_bind_def split: sum.splits)
  from derived_has_no_mass[OF D(1), of b] show ?thesis
    unfolding D(2) by (simp add: map_add_def)
qed

lemma inertia_tensor_value_entries:
  assumes "merged_value P = Inr p"
    and "inertia_tensor_value P b = Inr (Arr2 [[Ixx, o1, Ixz], [o2, Iyy, o3], [Ixz', o4, Izz]])"
  shows "p (''I'' @ b @ ''yy'') = Some Iyy"
  using assms
  by (auto simp: inertia_tensor_value_def sum_bind_def lookup_def split: sum.splits option.splits)

lemma xz_plane:
  "np_delete (np_delete (Arr2 [[a, o1, b], [o2, y, o3], [c, o4, d]]) 1 1) 1 0 = Arr2 [[a, b], [c, d]]"
  by (simp add: delete_nth_def)

lemma principal_radii_value_eq:
  assumes merged: "merged_value P = Inr p"
    and IH: "inertia_tensor_value P b =
       Inr (Arr2 [[PyFloat Ixx, PyFloat 0, PyFloat Ixz],
                  [PyFloat 0, PyFloat Iyy, PyFloat 0],
                  [PyFloat Ixz, PyFloat 0, PyFloat Izz]])"
    and m: "P (''m'' @ b) = Some (PyFloat m)" "0 < m"
    and e: "eig (Ixx, Ixz, Ixz, Izz) = ((l0, l1), ((v00, v01), (v10, v11)))"
    and nonneg: "0 \<le> l0" "0 \<le> l1" "0 \<le> Iyy"
  shows "principal_radii_value eig P b =
     Inr (sqrt (max l0 l1 / m), sqrt (min l0 l1 / m), sqrt (Iyy / m),
          if l0 \<le> l1 then arctan2 (- v11) v01 else arctan2 (- v10) v00)"
proof -
  have pm: "p (''m'' @ b) = Some (PyFloat m)" using merged_mass[OF merged] m(1) by simp
  have py: "p (''I'' @ b @ ''yy'') = Some (PyFloat Iyy)"
    using inertia_tensor_value_entries[OF merged IH] .
  have q: "\<not> l0 / m < 0" "\<not> l1 / m < 0" "\<not> Iyy / m < 0"
    using nonneg m(2) by (simp_all add: not_less)
  show ?thesis
    unfolding principal_radii_value_def merged IH
    using pm py q m(2)
    by (simp add: sum_bind_def delete_nth_def np_linalg_eig_def e argsort2_def take2_def index2_def
        lookup_def sqrt_of_def np_div_py_def np_div_def np_sqrt_def py_div_def Let_def
        return_finite_def
        max_def min_def)
qed

lemma form_inertia_tensor_fst:
  "self_parameters s < fresh s \<Longrightarrow>
     fst (form_inertia_tensor body s) = inertia_tensor_value (heap s (self_parameters s)) body"
  using form_inertia_tensor_char[of s body] by auto

lemma planar_principal_radii_of_gyration_fst:
  "self_parameters s < fresh s \<Longrightarrow>
     fst (planar_principal_radii_of_gyration eig body s)
       = principal_radii_value eig (heap s (self_parameters s)) body"
  using planar_principal_radii_of_gyration_char[of s eig body] by auto

lemma inertia_tensor_value_merged:
  "inertia_tensor_value P b = Inr t \<Longrightarrow> \<exists>p. merged_value P = Inr p"
  by (cases "merged_value P") (auto simp: inertia_tensor_value_def sum_bind_def)

lemma eig_contract_eigenvalues_nonneg:
  assumes c: "eig_contract eig (a, b, b, d)"
    and e: "eig (a, b, b, d) = ((l0, l1), ((v00, v01), (v10, v11)))"
    and psd: "0 \<le> a" "0 \<le> d" "b * b \<le> a * d"
  shows "0 \<le> l0" "0 \<le> l1"
proof -
  from c e have
    e0: "a * v00 + b * v10 = l0 * v00" "b * v00 + d * v10 = l0 * v10" "v00 * v00 + v10 * v10 = 1"
    and e1: "a * v01 + b * v11 = l1 * v01" "b * v01 + d * v11 = l1 * v11" "v01 * v01 + v11 * v11 = 1"
    by (simp_all add: eig_contract_def)
  show "0 \<le> l0" by (rule eigenvalue_nonneg[OF e0 psd])
  show "0 \<le> l1" by (rule eigenvalue_nonneg[OF e1 psd])
qed

lemma reconstruction_from_principal:
  fixes a b d :: real
  assumes e1: "a * ex + b * ez = lmax * ex" and e2: "b * ex + d * ez = lmax * ez"
    and f1: "a * fx + b * fz = lmin * fx" and f2: "b * fx + d * fz = lmin * fz"
    and u: "ex * ex + ez * ez = 1"
    and det: "ex * fz - fx * ez \<noteq> 0"
    and nonneg: "0 \<le> lmax" "0 \<le> lmin" "0 \<le> Iyy" and m: "0 < m"
  shows "principal_to_benchmark_inertia m (sqrt (lmax / m)) (sqrt (lmin / m)) (sqrt (Iyy / m))
           (arctan2 (- ez) ex) = (a, b, Iyy, d)"
proof -
  have "ex * ex + (- ez) * (- ez) = 1" using u by simp
  from arctan2_unit[OF this] have cs: "cos (arctan2 (- ez) ex) = ex" "sin (arctan2 (- ez) ex) = - ez"
    by simp_all
  have k: "m * (sqrt (lmax / m))\<^sup>2 = lmax" "m * (sqrt (lmin / m))\<^sup>2 = lmin"
    "m * (sqrt (Iyy / m))\<^sup>2 = Iyy"
    using nonneg m by simp_all
  note r = eigen_reconstruction[OF e1 e2 f1 f2 u det]
  have xx: "m * ((sqrt (lmax / m))\<^sup>2 * ex\<^sup>2 + (sqrt (lmin / m))\<^sup>2 * (- ez)\<^sup>2) = a"
  proof -
    have "m * ((sqrt (lmax / m))\<^sup>2 * ex\<^sup>2 + (sqrt (lmin / m))\<^sup>2 * (- ez)\<^sup>2)
        = (m * (sqrt (lmax / m))\<^sup>2) * (ex * ex) + (m * (sqrt (lmin / m))\<^sup>2) * (ez * ez)"
      by (simp add: power2_eq_square algebra_simps)
    then show ?thesis unfolding k using r(1) by simp
  qed
  have zz: "m * ((sqrt (lmax / m))\<^sup>2 * (- ez)\<^sup>2 + (sqrt (lmin / m))\<^sup>2 * ex\<^sup>2) = d"
  proof -
    have "m * ((sqrt (lmax / m))\<^sup>2 * (- ez)\<^sup>2 + (sqrt (lmin / m))\<^sup>2 * ex\<^sup>2)
        = (m * (sqrt (lmax / m))\<^sup>2) * (ez * ez) + (m * (sqrt (lmin / m))\<^sup>2) * (ex * ex)"
      by (simp add: power2_eq_square algebra_simps)
    then show ?thesis unfolding k using r(2) by simp
  qed
  have xz: "m * ((sqrt (lmin / m))\<^sup>2 - (sqrt (lmax / m))\<^sup>2) * (- ez) * ex = b"
  proof -
    have "m * ((sqrt (lmin / m))\<^sup>2 - (sqrt (lmax / m))\<^sup>2) * (- ez) * ex
        = ((m * (sqrt (lmax / m))\<^sup>2) - (m * (sqrt (lmin / m))\<^sup>2)) * (ex * ez)"
      by (simp add: algebra_simps)
    then show ?thesis unfolding k using r(3) by simp
  qed
  show ?thesis
    unfolding principal_to_benchmark_inertia_def cs using xx zz xz k(3) by simp
qed

text \<open>
  Claim C5.  For a body whose inertia tensor is symmetric and positive semi-definite
  and whose mass is positive, the decomposition hands the eigen-solver the tensor
  without its y row and column, takes the smaller eigenvalue for \<open>kmin\<close> and the larger
  for \<open>kmax\<close>, returns \<open>kmax = sqrt (eval_max / mass)\<close>, \<open>kmin = sqrt (eval_min / mass)\<close>
  and \<open>kyy = sqrt (Iyy / mass)\<close>, so that \<open>0 \<le> kmin \<le> kmax\<close>, and returns the angle
  \<open>arctan2 (- evec_max_z) evec_max_x\<close> of the eigenvector of the larger eigenvalue.
\<close>

theorem principal_axis_decomposition:
  assumes wf: "self_parameters s < fresh s"
    and IH: "fst (form_inertia_tensor b s) =
       Inr (Arr2 [[PyFloat Ixx, PyFloat 0, PyFloat Ixz],
                  [PyFloat 0, PyFloat Iyy, PyFloat 0],
                  [PyFloat Ixz, PyFloat 0, PyFloat Izz]])"
    and m: "heap s (self_parameters s) (''m'' @ b) = Some (PyFloat m)" "0 < m"
    and psd: "0 \<le> Ixx" "0 \<le> Izz" "Ixz * Ixz \<le> Ixx * Izz" "0 \<le> Iyy"
    and c: "eig_contract eig (Ixx, Ixz, Ixz, Izz)"
    and e: "eig (Ixx, Ixz, Ixz, Izz) = ((l0, l1), ((v00, v01), (v10, v11)))"
  shows "fst (planar_principal_radii_of_gyration eig b s) =
           Inr (sqrt (max l0 l1 / m), sqrt (min l0 l1 / m), sqrt (Iyy / m),
                if l0 \<le> l1 then arctan2 (- v11) v01 else arctan2 (- v10) v00)
         \<and> 0 \<le> sqrt (min l0 l1 / m) \<and> sqrt (min l0 l1 / m) \<le> sqrt (max l0 l1 / m)"
proof -
  let ?P = "heap s (self_parameters s)"
  from IH have t: "inertia_tensor_value ?P b =
       Inr (Arr2 [[PyFloat Ixx, PyFloat 0, PyFloat Ixz],
                  [PyFloat 0, PyFloat Iyy, PyFloat 0],
                  [PyFloat Ixz, PyFloat 0, PyFloat Izz]])"
    by (simp add: form_inertia_tensor_fst[OF wf])
  from inertia_tensor_value_merged[OF t] obtain p where p: "merged_value ?P = Inr p" by blast
  note l = eig_contract_eigenvalues_nonneg[OF c e psd(1,2,3)]
  have "principal_radii_value eig ?P b =
           Inr (sqrt (max l0 l1 / m), sqrt (min l0 l1 / m), sqrt (Iyy / m),
                if l0 \<le> l1 then arctan2 (- v11) v01 else arctan2 (- v10) v00)"
    by (rule principal_radii_value_eq[where P = "?P" and eig = eig, OF p t m e l psd(4)])
  moreover have "0 \<le> sqrt (min l0 l1 / m)" using l m(2) by simp
  moreover have "sqrt (min l0 l1 / m) \<le> sqrt (max l0 l1 / m)"
    using m(2) by (simp add: divide_le_cancel)
  ultimately show ?thesis
    by (simp add: planar_principal_radii_of_gyration_fst[OF wf])
qed

lemma tilted_frame_exists:
  "self_parameters (state_of tilted_frame_parameters) < fresh (state_of tilted_frame_parameters)"
  by (simp add: state_of_def)

lemma tilted_frame_tensor:
  "fst (form_inertia_tensor ''B'' (state_of tilted_frame_parameters)) =
       Inr (Arr2 [[PyFloat 34, PyFloat 0, PyFloat 12],
                  [PyFloat 0, PyFloat 64, PyFloat 0],
                  [PyFloat 12, PyFloat 0, PyFloat 41]])"
  unfolding form_inertia_tensor_fst[OF tilted_frame_exists] stored_state_of
  by (simp add: inertia_tensor_value_def merged_value_def Meijaard2007_derived_value_def
      sum_bind_def lookup_def map_add_def tilted_frame_parameters_def
      meijaard2007_parameters_def)

lemma tilted_frame_mass:
  "heap (state_of tilted_frame_parameters) (self_parameters (state_of tilted_frame_parameters))
     (''m'' @ ''B'') = Some (PyFloat 1)"
  by (simp add: stored_state_of tilted_frame_parameters_def)

lemma tilted_frame_contract: "eig_contract tilted_frame_eig (34, 12, 12, 41)"
  by (simp add: eig_contract_def tilted_frame_eig_def)

lemma tilted_frame_eig_value:
  "tilted_frame_eig (34, 12, 12, 41) = ((25, 50), ((- (4 / 5), 3 / 5), (3 / 5, 4 / 5)))"
  by (simp add: tilted_frame_eig_def)

theorem principal_axis_decomposition_witness:
  "self_parameters (state_of tilted_frame_parameters) < fresh (state_of tilted_frame_parameters)
   \<and> fst (form_inertia_tensor ''B'' (state_of tilted_frame_parameters)) =
       Inr (Arr2 [[PyFloat 34, PyFloat 0, PyFloat 12],
                  [PyFloat 0, PyFloat 64, PyFloat 0],
                  [PyFloat 12, PyFloat 0, PyFloat 41]])
   \<and> eig_contract tilted_frame_eig (34, 12, 12, 41)
   \<and> fst (planar_principal_radii_of_gyration tilted_frame_eig ''B''
            (state_of tilted_frame_parameters)) =
       Inr (sqrt 50, 5, 8, arctan2 (- (4 / 5)) (3 / 5))"
proof -
  have s5: "sqrt 25 = 5" and s8: "sqrt 64 = 8"
    using real_sqrt_abs[of 5] real_sqrt_abs[of 8] by simp_all
  from principal_axis_decomposition[OF tilted_frame_exists tilted_frame_tensor tilted_frame_mass _
      _ _ _ _ tilted_frame_contract tilted_frame_eig_value]
  have "fst (planar_principal_radii_of_gyration tilted_frame_eig ''B''
            (state_of tilted_frame_parameters)) =
       Inr (sqrt 50, sqrt 25, sqrt 64, arctan2 (- (4 / 5)) (3 / 5))"
    by simp
  with tilted_frame_exists tilted_frame_tensor tilted_frame_contract show ?thesis
    by (simp add: s5 s8)
qed

text \<open>
  The reconstruction formulas of the converter are the algebraic inverse of the
  decomposition: over the real numbers, decomposing a symmetric positive semi-definite
  planar tensor of a body of positive mass and reconstructing gives back \<open>Ixx\<close>, \<open>Ixz\<close>,
  \<open>Iyy\<close> and \<open>Izz\<close>.  This is a statement of exact arithmetic.  It bounds no rounding
  error: how far the float64 computation of the program strays from the entries depends
  on their magnitude and on the library routines, which are not modelled here.
\<close>

lemma reconstruction_inverts_decomposition_over_reals:
  assumes wf: "self_parameters s < fresh s"
    and IH: "fst (form_inertia_tensor b s) =
       Inr (Arr2 [[PyFloat Ixx, PyFloat 0, PyFloat Ixz],
                  [PyFloat 0, PyFloat Iyy, PyFloat 0],
                  [PyFloat Ixz, PyFloat 0, PyFloat Izz]])"
    and m: "heap s (self_parameters s) (''m'' @ b) = Some (PyFloat m)" "0 < m"
    and psd: "0 \<le> Ixx" "0 \<le> Izz" "Ixz * Ixz \<le> Ixx * Izz" "0 \<le> Iyy"
    and c: "eig_contract eig (Ixx, Ixz, Ixz, Izz)"
  shows "\<exists>kmax kmin kyy angle Ixx' Ixz' Iyy' Izz'.
           fst (planar_principal_radii_of_gyration eig b s) = Inr (kmax, kmin, kyy, angle)
         \<and> principal_to_benchmark_inertia m kmax kmin kyy angle = (Ixx', Ixz', Iyy', Izz')
         \<and> Ixx' = Ixx \<and> Ixz' = Ixz \<and> Iyy' = Iyy \<and> Izz' = Izz"
proof -
  let ?P = "heap s (self_parameters s)"
  obtain l0 l1 v00 v01 v10 v11 where
    e: "eig (Ixx, Ixz, Ixz, Izz) = ((l0, l1), ((v00, v01), (v10, v11)))"
    by (metis surj_pair)
  from c e have
    e0: "Ixx * v00 + Ixz * v10 = l0 * v00" "Ixz * v00 + Izz * v10 = l0 * v10"
        "v00 * v00 + v10 * v10 = 1"
    and e1: "Ixx * v01 + Ixz * v11 = l1 * v01" "Ixz * v01 + Izz * v11 = l1 * v11"
        "v01 * v01 + v11 * v11 = 1"
    and det: "v00 * v11 - v01 * v10 \<noteq> 0"
    by (simp_all add: eig_contract_def)
  from IH have t: "inertia_tensor_value ?P b =
       Inr (Arr2 [[PyFloat Ixx, PyFloat 0, PyFloat Ixz],
                  [PyFloat 0, PyFloat Iyy, PyFloat 0],
                  [PyFloat Ixz, PyFloat 0, PyFloat Izz]])"
    by (simp add: form_inertia_tensor_fst[OF wf])
  from inertia_tensor_value_merged[OF t] obtain p where p: "merged_value ?P = Inr p" by blast
  note l = eig_contract_eigenvalues_nonneg[OF c e psd(1,2,3)]
  have run: "fst (planar_principal_radii_of_gyration eig b s) =
           Inr (sqrt (max l0 l1 / m), sqrt (min l0 l1 / m), sqrt (Iyy / m),
                if l0 \<le> l1 then arctan2 (- v11) v01 else arctan2 (- v10) v00)"
    unfolding planar_principal_radii_of_gyration_fst[OF wf]
    by (rule principal_radii_value_eq[where P = "?P" and eig = eig, OF p t m e l psd(4)])
  have recon: "principal_to_benchmark_inertia m (sqrt (max l0 l1 / m)) (sqrt (min l0 l1 / m))
       (sqrt (Iyy / m)) (if l0 \<le> l1 then arctan2 (- v11) v01 else arctan2 (- v10) v00)
       = (Ixx, Ixz, Iyy, Izz)"
  proof (cases "l0 \<le> l1")
    case True
    have d: "v01 * v10 - v00 * v11 \<noteq> 0" using det by simp
    from reconstruction_from_principal[OF e1(1,2) e0(1,2) e1(3) d l(2) l(1) psd(4) m(2)] True
    show ?thesis by (simp add: max_def min_def)
  next
    case False
    from reconstruction_from_principal[OF e0(1,2) e1(1,2) e0(3) det l(1) l(2) psd(4) m(2)] False
    show ?thesis by (simp add: max_def min_def)
  qed
  from run recon show ?thesis by simp
qed

end
